theory Spec2Isabelle
  imports Complex_Main "HOL-Library.Log_Nat"
begin

section \<open>Numbers\<close>

text \<open>
  Python's \<open>float\<close> values are modelled as exact rationals: the arithmetic of the
  program is carried out without binary rounding, overflow or underflow. The price solver
  and the columns set from its results are given a second time on doubles, with the
  rounding of each operation, in the section on double precision.
\<close>

subsection \<open>The price solver (\<open>utils.calcular_precio_publicacion_ml\<close>) in exact arithmetic\<close>

text \<open>
  \<open>float(x or 0.0)\<close>: a missing argument (\<open>None\<close>) counts as \<open>0.0\<close>; a number is
  kept as it is (zero is falsy and is replaced by the equal value \<open>0.0\<close>).
\<close>

definition float_or0 :: "rat option \<Rightarrow> rat" where
  "float_or0 x = (case x of None \<Rightarrow> 0 | Some v \<Rightarrow> (if v = 0 then 0 else v))"

text \<open>
  The result is the tuple (precio_publicacion, cargo_por_vender,
  costo_por_ofrecer_cuotas, retenciones, recibis, denominador_invalido).
\<close>

definition calcular_precio_publicacion_ml ::
  "rat option \<Rightarrow> rat option \<Rightarrow> rat option \<Rightarrow> rat option \<Rightarrow> rat option
     \<Rightarrow> rat \<times> rat \<times> rat \<times> rat \<times> rat \<times> bool" where
  "calcular_precio_publicacion_ml tarifa_neta0 porcentaje_comision0 porcentaje_financiacion0
       porcentaje_retenciones0 costo_fijo0 =
     (let tarifa_neta = float_or0 tarifa_neta0;
          porcentaje_comision = float_or0 porcentaje_comision0;
          porcentaje_financiacion = float_or0 porcentaje_financiacion0;
          porcentaje_retenciones = float_or0 porcentaje_retenciones0;
          costo_fijo = float_or0 costo_fijo0;
          total_porcentual = porcentaje_comision + porcentaje_financiacion + porcentaje_retenciones;
          denominador = 1 - total_porcentual
      in if denominador \<le> 0 then (0, 0, 0, 0, 0, True)
         else
           (let precio_publicacion = (tarifa_neta + costo_fijo) / denominador;
                cargo_por_vender = precio_publicacion * porcentaje_comision + costo_fijo;
                costo_por_ofrecer_cuotas = precio_publicacion * porcentaje_financiacion;
                retenciones = precio_publicacion * porcentaje_retenciones;
                recibis = precio_publicacion
                            - (cargo_por_vender + costo_por_ofrecer_cuotas + retenciones)
            in (precio_publicacion, cargo_por_vender, costo_por_ofrecer_cuotas,
                retenciones, recibis, False)))"

subsection \<open>Rounding (\<open>Series.round(2)\<close>)\<close>

text \<open>
  \<open>rint\<close> rounds to the nearest integer, a tie going to the even neighbour; \<open>round2\<close> is
  \<open>rint(x * 100) / 100\<close>, the way numpy rounds to two decimals.
\<close>

definition rint :: "rat \<Rightarrow> int" where
  "rint x =
     (let f = \<lfloor>x\<rfloor>; d = x - of_int f
      in if d < 1 / 2 then f
         else if 1 / 2 < d then f + 1
         else if even f then f else f + 1)"

definition round2 :: "rat \<Rightarrow> rat" where
  "round2 x = of_int (rint (x * 100)) / 100"

section \<open>Text\<close>

text \<open>
  A Python \<open>str\<close> is modelled as a \<open>string\<close> whose characters are the code points
  U+0000 to U+00FF (ASCII and Latin-1, which covers Spanish text); code points above
  U+00FF are outside the model. Where a library function leaves that range (the
  compatibility decomposition below), texts are lists of code points.
\<close>

type_synonym codepoints = "nat list"

text \<open>\<open>str.isspace\<close> on one code point (also the class \<open>\s\<close> of \<open>re\<close> on \<open>str\<close>).\<close>

definition es_espacio_cp :: "nat \<Rightarrow> bool" where
  "es_espacio_cp n =
     ((9 \<le> n \<and> n \<le> 13) \<or> (28 \<le> n \<and> n \<le> 32) \<or> n = 133 \<or> n = 160 \<or> n = 5760
      \<or> (8192 \<le> n \<and> n \<le> 8202) \<or> n = 8232 \<or> n = 8233 \<or> n = 8239 \<or> n = 8287
      \<or> n = 12288)"

definition es_espacio :: "char \<Rightarrow> bool" where
  "es_espacio c = es_espacio_cp (of_char c)"

text \<open>\<open>str.strip()\<close>: blanks removed at both ends.\<close>

definition strip_cp :: "codepoints \<Rightarrow> codepoints" where
  "strip_cp s = rev (dropWhile es_espacio_cp (rev (dropWhile es_espacio_cp s)))"

definition py_strip :: "string \<Rightarrow> string" where
  "py_strip s = rev (dropWhile es_espacio (rev (dropWhile es_espacio s)))"

text \<open>\<open>str.strip(chars)\<close>: the characters of \<open>chars\<close> removed at both ends.\<close>

definition strip_chars :: "string \<Rightarrow> string \<Rightarrow> string" where
  "strip_chars chars s =
     rev (dropWhile (\<lambda>c. c \<in> set chars) (rev (dropWhile (\<lambda>c. c \<in> set chars) s)))"

text \<open>
  \<open>str.lower()\<close>, one code point at a time: the capitals of ASCII and of Latin-1
  (U+00C0 to U+00DE without the multiplication sign U+00D7) move up by 32; every other
  code point that can occur here is its own lower case.
\<close>

definition minuscula_cp :: "nat \<Rightarrow> nat" where
  "minuscula_cp n =
     (if (65 \<le> n \<and> n \<le> 90) \<or> (192 \<le> n \<and> n \<le> 222 \<and> n \<noteq> 215) then n + 32 else n)"

definition lower_cp :: "codepoints \<Rightarrow> codepoints" where
  "lower_cp s = map minuscula_cp s"

definition codigos :: "string \<Rightarrow> codepoints" where
  "codigos s = map of_char s"

definition py_lower :: "string \<Rightarrow> codepoints" where
  "py_lower s = lower_cp (codigos s)"

definition startswith :: "'a list \<Rightarrow> 'a list \<Rightarrow> bool" where
  "startswith s p = (take (length p) s = p)"

subsection \<open>\<open>unicodedata.normalize('NFKD', _)\<close> and \<open>unicodedata.combining\<close>\<close>

text \<open>
  The compatibility decomposition of the Unicode character database for the code points
  U+00A0 to U+00FF; below U+00A0 no character decomposes, and a code point of this range
  that the table does not list has no decomposition either.
\<close>

definition nfkd_tabla :: "(nat \<times> nat list) list" where
  "nfkd_tabla =
     [(0xA0, [0x20]), (0xA8, [0x20, 0x308]), (0xAA, [0x61]), (0xAF, [0x20, 0x304]),
      (0xB2, [0x32]), (0xB3, [0x33]), (0xB4, [0x20, 0x301]), (0xB5, [0x3BC]),
      (0xB8, [0x20, 0x327]), (0xB9, [0x31]), (0xBA, [0x6F]),
      (0xBC, [0x31, 0x2044, 0x34]), (0xBD, [0x31, 0x2044, 0x32]), (0xBE, [0x33, 0x2044, 0x34]),
      (0xC0, [0x41, 0x300]), (0xC1, [0x41, 0x301]), (0xC2, [0x41, 0x302]),
      (0xC3, [0x41, 0x303]), (0xC4, [0x41, 0x308]), (0xC5, [0x41, 0x30A]),
      (0xC7, [0x43, 0x327]),
      (0xC8, [0x45, 0x300]), (0xC9, [0x45, 0x301]), (0xCA, [0x45, 0x302]), (0xCB, [0x45, 0x308]),
      (0xCC, [0x49, 0x300]), (0xCD, [0x49, 0x301]), (0xCE, [0x49, 0x302]), (0xCF, [0x49, 0x308]),
      (0xD1, [0x4E, 0x303]),
      (0xD2, [0x4F, 0x300]), (0xD3, [0x4F, 0x301]), (0xD4, [0x4F, 0x302]),
      (0xD5, [0x4F, 0x303]), (0xD6, [0x4F, 0x308]),
      (0xD9, [0x55, 0x300]), (0xDA, [0x55, 0x301]), (0xDB, [0x55, 0x302]), (0xDC, [0x55, 0x308]),
      (0xDD, [0x59, 0x301]),
      (0xE0, [0x61, 0x300]), (0xE1, [0x61, 0x301]), (0xE2, [0x61, 0x302]),
      (0xE3, [0x61, 0x303]), (0xE4, [0x61, 0x308]), (0xE5, [0x61, 0x30A]),
      (0xE7, [0x63, 0x327]),
      (0xE8, [0x65, 0x300]), (0xE9, [0x65, 0x301]), (0xEA, [0x65, 0x302]), (0xEB, [0x65, 0x308]),
      (0xEC, [0x69, 0x300]), (0xED, [0x69, 0x301]), (0xEE, [0x69, 0x302]), (0xEF, [0x69, 0x308]),
      (0xF1, [0x6E, 0x303]),
      (0xF2, [0x6F, 0x300]), (0xF3, [0x6F, 0x301]), (0xF4, [0x6F, 0x302]),
      (0xF5, [0x6F, 0x303]), (0xF6, [0x6F, 0x308]),
      (0xF9, [0x75, 0x300]), (0xFA, [0x75, 0x301]), (0xFB, [0x75, 0x302]), (0xFC, [0x75, 0x308]),
      (0xFD, [0x79, 0x301]), (0xFF, [0x79, 0x308])]"

definition nfkd_char :: "char \<Rightarrow> codepoints" where
  "nfkd_char c =
     (case map_of nfkd_tabla (of_char c) of None \<Rightarrow> [of_char c] | Some d \<Rightarrow> d)"

definition normalize_NFKD :: "string \<Rightarrow> codepoints" where
  "normalize_NFKD s = concat (map nfkd_char s)"

text \<open>
  \<open>unicodedata.combining(c) \<noteq> 0\<close> on the code points \<open>normalize_NFKD\<close> can produce: the
  marks U+0300 to U+0304, U+0308, U+030A and U+0327 have a combining class, the others
  have class 0.
\<close>

definition combining :: "nat \<Rightarrow> bool" where
  "combining n = (n \<in> set [0x300, 0x301, 0x302, 0x303, 0x304, 0x308, 0x30A, 0x327])"

section \<open>The normalizers of \<open>utils\<close>\<close>

subsection \<open>Python's \<open>float(str)\<close>\<close>

text \<open>
  A value of type \<open>float\<close> read from a text: a number (an exact rational, see above),
  an infinity or a NaN.
\<close>

datatype fval = Num rat | PInf | NInf | NaN

definition is_digit :: "char \<Rightarrow> bool" where
  "is_digit c = (48 \<le> (of_char c :: nat) \<and> (of_char c :: nat) \<le> 57)"

definition digit_val :: "char \<Rightarrow> nat" where
  "digit_val c = of_char c - 48"

definition digits_val :: "string \<Rightarrow> nat" where
  "digits_val ds = foldl (\<lambda>a c. 10 * a + digit_val c) 0 ds"

definition pot10 :: "int \<Rightarrow> rat" where
  "pot10 k = (if 0 \<le> k then 10 ^ nat k else 1 / 10 ^ nat (- k))"

text \<open>
  An underscore is accepted between two digits only, and is then dropped; \<open>prev\<close> is the
  character before the one under the cursor (NUL at the start).
\<close>

fun quitar_guiones :: "char \<Rightarrow> string \<Rightarrow> string option" where
  "quitar_guiones prev [] = (if prev = CHR ''_'' then None else Some [])"
| "quitar_guiones prev (c # cs) =
     (if c = CHR ''_''
      then (if is_digit prev then quitar_guiones c cs else None)
      else if prev = CHR ''_'' \<and> \<not> is_digit c then None
      else map_option ((#) c) (quitar_guiones c cs))"

text \<open>
  The blanks \<open>float\<close> skips at both ends: tab to carriage return and the space, and the
  blanks of Latin-1 above U+007F, which it first turns into spaces.
\<close>

definition float_espacio :: "char \<Rightarrow> bool" where
  "float_espacio c =
     ((9 \<le> (of_char c :: nat) \<and> (of_char c :: nat) \<le> 13) \<or> (of_char c :: nat) = 32
      \<or> (of_char c :: nat) = 133 \<or> (of_char c :: nat) = 160)"

definition float_strip :: "string \<Rightarrow> string" where
  "float_strip s = rev (dropWhile float_espacio (rev (dropWhile float_espacio s)))"

text \<open>The exponent part: nothing, or \<open>e\<close> or \<open>E\<close>, an optional sign and digits.\<close>

definition exponente :: "string \<Rightarrow> int option" where
  "exponente r =
     (case r of
        [] \<Rightarrow> Some 0
      | c # r' \<Rightarrow>
          if c = CHR ''e'' \<or> c = CHR ''E'' then
            (case r' of
               [] \<Rightarrow> None
             | s # d \<Rightarrow>
                 if s = CHR ''-'' then
                   (if d \<noteq> [] \<and> list_all is_digit d then Some (- int (digits_val d)) else None)
                 else if s = CHR ''+'' then
                   (if d \<noteq> [] \<and> list_all is_digit d then Some (int (digits_val d)) else None)
                 else (if list_all is_digit r' then Some (int (digits_val r')) else None))
          else None)"

text \<open>
  An unsigned decimal number: digits, optionally a point and digits, with a digit on at
  least one side of the point, then the exponent part. \<open>None\<close>: the text is no such number.
\<close>

definition numero :: "string \<Rightarrow> rat option" where
  "numero t =
     (let ip = takeWhile is_digit t;
          r1 = dropWhile is_digit t;
          fp = (case r1 of [] \<Rightarrow> [] | c # r \<Rightarrow> if c = CHR ''.'' then takeWhile is_digit r else []);
          r2 = (case r1 of [] \<Rightarrow> [] | c # r \<Rightarrow> if c = CHR ''.'' then dropWhile is_digit r else r1)
      in if ip = [] \<and> fp = [] then None
         else (case exponente r2 of
                 None \<Rightarrow> None
               | Some e \<Rightarrow> Some (of_nat (digits_val (ip @ fp)) * pot10 (e - int (length fp)))))"

definition minuscula_ascii :: "char \<Rightarrow> nat" where
  "minuscula_ascii c =
     (if 65 \<le> (of_char c :: nat) \<and> (of_char c :: nat) \<le> 90 then of_char c + 32 else of_char c)"

text \<open>
  What follows the sign: a number, or \<open>inf\<close>, \<open>infinity\<close> or \<open>nan\<close> in any case of
  letters. \<open>None\<close>: neither.
\<close>

definition float_body :: "bool \<Rightarrow> string \<Rightarrow> fval option" where
  "float_body neg body =
     (case numero body of
        Some x \<Rightarrow> Some (Num (if neg then - x else x))
      | None \<Rightarrow>
          (let l = map minuscula_ascii body
           in if l = codigos ''inf'' \<or> l = codigos ''infinity''
              then Some (if neg then NInf else PInf)
              else if l = codigos ''nan'' then Some NaN
              else None))"

text \<open>\<open>float(s)\<close>; \<open>None\<close> is the ValueError.\<close>

definition py_float :: "string \<Rightarrow> fval option" where
  "py_float s =
     (case quitar_guiones (CHR 0x00) s of
        None \<Rightarrow> None
      | Some s1 \<Rightarrow>
          (case float_strip s1 of
             [] \<Rightarrow> None
           | c # b \<Rightarrow>
               if c = CHR ''-'' then float_body True b
               else if c = CHR ''+'' then float_body False b
               else float_body False (c # b)))"

text \<open>The comparison \<open>value > 1\<close> and the division \<open>value / 100.0\<close> on such values.\<close>

definition mayor_que_1 :: "fval \<Rightarrow> bool" where
  "mayor_que_1 v = (case v of Num x \<Rightarrow> 1 < x | PInf \<Rightarrow> True | NInf \<Rightarrow> False | NaN \<Rightarrow> False)"

definition entre_100 :: "fval \<Rightarrow> fval" where
  "entre_100 v = (case v of Num x \<Rightarrow> Num (x / 100) | PInf \<Rightarrow> PInf | NInf \<Rightarrow> NInf | NaN \<Rightarrow> NaN)"

text \<open>A value below zero.\<close>

definition negativo :: "fval \<Rightarrow> bool" where
  "negativo v = (case v of Num x \<Rightarrow> x < 0 | PInf \<Rightarrow> False | NInf \<Rightarrow> True | NaN \<Rightarrow> False)"

subsection \<open>String methods\<close>

text \<open>\<open>s.replace(c, r)\<close> for a single character \<open>c\<close>.\<close>

definition replace :: "char \<Rightarrow> string \<Rightarrow> string \<Rightarrow> string" where
  "replace c r s = concat (map (\<lambda>x. if x = c then r else [x]) s)"

text \<open>\<open>s.rfind(c)\<close>: the index of the last \<open>c\<close>, or \<open>-1\<close>.\<close>

definition rfind :: "char \<Rightarrow> string \<Rightarrow> int" where
  "rfind c s =
     (if c \<in> set s then int (length s) - 1 - int (length (takeWhile (\<lambda>x. x \<noteq> c) (rev s)))
      else - 1)"

text \<open>\<open>s.split(c)\<close>.\<close>

fun split :: "char \<Rightarrow> string \<Rightarrow> string list" where
  "split c [] = [[]]"
| "split c (x # xs) =
     (case split c xs of
        [] \<Rightarrow> [[x]]
      | p # ps \<Rightarrow> if x = c then [] # p # ps else (x # p) # ps)"

subsection \<open>\<open>parse_money\<close>\<close>

text \<open>
  The text \<open>parse_money\<close> hands to \<open>float\<close>, from the stripped text: \<open>re.sub\<close> drops
  every \<open>$\<close> and blank, then the separators are settled.
\<close>

definition texto_money :: "string \<Rightarrow> string" where
  "texto_money text0 =
     (let text = filter (\<lambda>c. \<not> (c = CHR ''$'' \<or> es_espacio c)) text0
      in if CHR '','' \<in> set text \<and> CHR ''.'' \<in> set text then
           (if rfind (CHR '','') text < rfind (CHR ''.'') text
            then replace (CHR '','') [] text
            else replace (CHR '','') ''.'' (replace (CHR ''.'') [] text))
         else if CHR '','' \<in> set text then
           (let parts = split (CHR '','') text
            in if length parts = 2 \<and> length (parts ! 1) \<le> 2
               then replace (CHR '','') ''.'' text
               else replace (CHR '','') [] text)
         else text)"

text \<open>The argument is \<open>None\<close> for a missing cell (\<open>None\<close> or NaN).\<close>

definition parse_money :: "string option \<Rightarrow> fval" where
  "parse_money text0 =
     (case text0 of
        None \<Rightarrow> Num 0
      | Some t \<Rightarrow>
          (let text = py_strip t
           in if text = [] then Num 0
              else (case py_float (texto_money text) of
                      Some v \<Rightarrow> v
                    | None \<Rightarrow> Num 0)))"

subsection \<open>\<open>parse_pct\<close>\<close>

definition texto_pct :: "string \<Rightarrow> string" where
  "texto_pct text0 =
     replace (CHR '','') ''.'' (filter (\<lambda>c. \<not> (c = CHR ''%'' \<or> es_espacio c)) text0)"

definition parse_pct :: "string option \<Rightarrow> fval" where
  "parse_pct text0 =
     (case text0 of
        None \<Rightarrow> Num 0
      | Some t \<Rightarrow>
          (let text = py_strip t
           in if text = [] then Num 0
              else (case py_float (texto_pct text) of
                      Some v \<Rightarrow> if mayor_que_1 v then entre_100 v else v
                    | None \<Rightarrow> Num 0)))"

subsection \<open>\<open>parse_fee_combo\<close>\<close>

text \<open>The class \<open>[\d\.,]\<close>.\<close>

definition es_num_char :: "char \<Rightarrow> bool" where
  "es_num_char c = (is_digit c \<or> c = CHR ''.'' \<or> c = CHR '','')"

text \<open>
  \<open>re.search(r'([\d\.,]+)\s*%', text)\<close>: group 1 of the leftmost match. At a start
  position the longest run of the class is taken; a shorter run cannot match, since the
  character after it is of the class and so neither a blank nor \<open>%\<close>.
\<close>

fun pct_match :: "string \<Rightarrow> string option" where
  "pct_match [] = None"
| "pct_match (c # cs) =
     (let g = takeWhile es_num_char (c # cs);
          r = dropWhile es_espacio (dropWhile es_num_char (c # cs))
      in if g \<noteq> [] \<and> (case r of [] \<Rightarrow> False | x # r' \<Rightarrow> x = CHR ''%'')
         then Some g else pct_match cs)"

text \<open>\<open>re.search(r'\$\s*([\d\.,]+)', text)\<close>: group 1 of the leftmost match.\<close>

fun fixed_match :: "string \<Rightarrow> string option" where
  "fixed_match [] = None"
| "fixed_match (c # cs) =
     (let g = takeWhile es_num_char (dropWhile es_espacio cs)
      in if c = CHR ''$'' \<and> g \<noteq> [] then Some g else fixed_match cs)"

definition parse_fee_combo :: "string option \<Rightarrow> fval \<times> fval" where
  "parse_fee_combo text0 =
     (case text0 of
        None \<Rightarrow> (Num 0, Num 0)
      | Some t \<Rightarrow>
          (let text = py_strip t
           in if text = [] then (Num 0, Num 0)
              else
                (let pct_value = (case pct_match text of
                                    None \<Rightarrow> Num 0
                                  | Some g \<Rightarrow> parse_pct (Some (g @ ''%'')));
                     fixed_value = (case fixed_match text of
                                      None \<Rightarrow> Num 0
                                    | Some g \<Rightarrow> parse_money (Some (''$'' @ g)))
                 in (pct_value, fixed_value))))"

section \<open>The pricing computation (\<open>data_processor.calcular\<close>)\<close>

text \<open>
  A joined row, with the columns the computation reads. A numeric cell is a rational or
  missing (\<open>None\<close>: NaN, or a value \<open>pd.to_numeric(_, errors='coerce')\<close> turns into NaN);
  a text cell is a string or missing.
\<close>

record fila =
  SKU :: string
  SHIPPING_METHOD :: "string option"
  fee_pct :: "rat option"
  fee_fixed :: "rat option"
  financing_pct :: "rat option"
  retenciones_pct :: "rat option"
  Codigo_Neored :: "string option"
  Precio_Tarifa :: "rat option"
  Cantidad_a_mano :: "rat option"
  tax_pct :: "rat option"
  Notas_Flags :: "string option"

text \<open>
  The joined frame: its rows, and whether it has the columns the computation tests for:
  the shipping method (\<open>'SHIPPING_METHOD '\<close> or \<open>'SHIPPING_METHOD'\<close>), \<open>'retenciones_pct'\<close>
  and \<open>'Notas/Flags'\<close>. The cell of an absent column is never read.
\<close>

record frame =
  filas :: "fila list"
  col_SHIPPING_METHOD :: bool
  col_retenciones_pct :: bool
  col_Notas_Flags :: bool

text \<open>One row of the frame \<open>calcular\<close> returns: the input row and the columns it sets.\<close>

record resultado =
  origen :: fila
  Notas :: string
  Precio_de_Tarifa :: rat
  Tarifa_mas_impuestos :: rat
  Recargo_pct_ML :: rat
  Recargo_fijo_ML :: rat
  Cargo_por_vender :: rat
  Recargo_financiacion :: rat
  Recargo_envio :: rat
  Retenciones_ML :: rat
  Recibis :: rat
  IVA :: rat
  Precio_final :: rat
  pct_ML_aplicado :: rat
  pct_financiacion_aplicado :: rat

text \<open>\<open>pd.to_numeric(col, errors='coerce').fillna(0.0)\<close> on one cell.\<close>

definition fillna0 :: "rat option \<Rightarrow> rat" where
  "fillna0 c = (case c of None \<Rightarrow> 0 | Some v \<Rightarrow> v)"

text \<open>\<open>col.fillna('')\<close> on one text cell.\<close>

definition fillna_str :: "string option \<Rightarrow> string" where
  "fillna_str c = (case c of None \<Rightarrow> [] | Some v \<Rightarrow> v)"

subsection \<open>Shipping surcharge\<close>

definition normalizar_estado_envio :: "string \<Rightarrow> codepoints" where
  "normalizar_estado_envio valor =
     (let valor_normalizado = normalize_NFKD valor;
          valor_sin_tildes = filter (\<lambda>caracter. \<not> combining caracter) valor_normalizado
      in lower_cp (strip_cp valor_sin_tildes))"

definition estados_con_recargo :: "codepoints list" where
  "estados_con_recargo =
     [codigos ''mercado envios gratis'', codigos ''mercado envios por mi cuenta'']"

definition aplica_envio :: "frame \<Rightarrow> fila \<Rightarrow> bool" where
  "aplica_envio df r =
     (if col_SHIPPING_METHOD df
      then normalizar_estado_envio (fillna_str (SHIPPING_METHOD r)) \<in> set estados_con_recargo
      else False)"

text \<open>
  The argument \<open>valor_recargo_envio\<close>: a number (or a value \<open>float()\<close> converts to that
  number), or a value \<open>float()\<close> rejects with TypeError or ValueError, of which only the
  truth value matters.
\<close>

datatype valor = Numero rat | No_numerico bool

definition truthy :: "valor \<Rightarrow> bool" where
  "truthy v = (case v of Numero x \<Rightarrow> x \<noteq> 0 | No_numerico b \<Rightarrow> b)"

text \<open>\<open>float(valor_recargo_envio)\<close>, with \<open>0.0\<close> in the \<open>except\<close> branch.\<close>

definition float_valor :: "valor \<Rightarrow> rat" where
  "float_valor v = (case v of Numero x \<Rightarrow> x | No_numerico b \<Rightarrow> 0)"

text \<open>
  The shipping surcharge of one row (its column, before rounding). \<open>tipo_recargo_envio\<close>
  is \<open>None\<close> for an argument that is not a \<open>str\<close>; \<open>aplica\<close> is the row's entry of the mask
  \<open>aplica_envio\<close>. A row outside the mask keeps the initial \<open>0.0\<close>.
\<close>

definition recargo_envio :: "string option \<Rightarrow> valor \<Rightarrow> bool \<Rightarrow> rat \<Rightarrow> rat" where
  "recargo_envio tipo_recargo_envio valor_recargo_envio aplica tarifa_neta_base =
     (let tipo_envio = (case tipo_recargo_envio of Some t \<Rightarrow> py_lower t
                                                | None \<Rightarrow> codigos ''ninguno'')
      in if startswith tipo_envio (codigos ''fijo'') \<and> truthy valor_recargo_envio then
           (let monto_fijo = float_valor valor_recargo_envio
            in if monto_fijo \<noteq> 0 then (if aplica then monto_fijo else 0)
               else (if aplica then 0 else 0))
         else if startswith tipo_envio (codigos ''porcentaje'') \<and> truthy valor_recargo_envio then
           (let pct_envio0 = float_valor valor_recargo_envio;
                pct_envio = (if 1 < pct_envio0 then pct_envio0 / 100 else pct_envio0)
            in if aplica then tarifa_neta_base * pct_envio else 0)
         else 0)"

subsection \<open>The rows of the result\<close>

definition mensaje :: string where
  "mensaje = ''Porcentajes ML sin soluci'' @ [CHR 0xF3] @ ''n (denominador <= 0)''"

text \<open>
  The column operations of \<open>calcular\<close> act on each row by itself, so each series of the
  source is given as a function of one row; the frame supplies the presence of the
  optional columns.
\<close>

definition tarifa_neta_base :: "bool \<Rightarrow> fila \<Rightarrow> rat" where
  "tarifa_neta_base incluir_impuestos r =
     (let tax = fillna0 (tax_pct r);
          tarifa_base = fillna0 (Precio_Tarifa r);
          tarifa_con_impuestos = tarifa_base * (1 + tax)
      in if incluir_impuestos then tarifa_con_impuestos else tarifa_base)"

definition envio :: "frame \<Rightarrow> bool \<Rightarrow> string option \<Rightarrow> valor \<Rightarrow> fila \<Rightarrow> rat" where
  "envio df incluir_impuestos tipo_recargo_envio valor_recargo_envio r =
     recargo_envio tipo_recargo_envio valor_recargo_envio (aplica_envio df r)
       (tarifa_neta_base incluir_impuestos r)"

definition tarifa_objetivo :: "frame \<Rightarrow> bool \<Rightarrow> string option \<Rightarrow> valor \<Rightarrow> fila \<Rightarrow> rat" where
  "tarifa_objetivo df incluir_impuestos tipo_recargo_envio valor_recargo_envio r =
     tarifa_neta_base incluir_impuestos r
       + envio df incluir_impuestos tipo_recargo_envio valor_recargo_envio r"

text \<open>The series \<open>retenciones_pct\<close>: the column when the frame has it, else zeros.\<close>

definition retenciones_pct_serie :: "frame \<Rightarrow> fila \<Rightarrow> rat" where
  "retenciones_pct_serie df r =
     (if col_retenciones_pct df then fillna0 (retenciones_pct r) else 0)"

text \<open>The entry of the list \<open>calculos\<close> for one row: the call of the solver.\<close>

definition calculos ::
  "frame \<Rightarrow> bool \<Rightarrow> string option \<Rightarrow> valor \<Rightarrow> fila \<Rightarrow> rat \<times> rat \<times> rat \<times> rat \<times> rat \<times> bool" where
  "calculos df incluir_impuestos tipo_recargo_envio valor_recargo_envio r =
     calcular_precio_publicacion_ml
       (Some (tarifa_objetivo df incluir_impuestos tipo_recargo_envio valor_recargo_envio r))
       (Some (fillna0 (fee_pct r)))
       (Some (fillna0 (financing_pct r)))
       (Some (retenciones_pct_serie df r))
       (Some (fillna0 (fee_fixed r)))"

definition notas_iniciales :: "frame \<Rightarrow> fila \<Rightarrow> string" where
  "notas_iniciales df r = (if col_Notas_Flags df then fillna_str (Notas_Flags r) else [])"

definition calcular_fila :: "frame \<Rightarrow> bool \<Rightarrow> string option \<Rightarrow> valor \<Rightarrow> fila \<Rightarrow> resultado" where
  "calcular_fila df incluir_impuestos tipo_recargo_envio valor_recargo_envio r =
     (let notas0 = notas_iniciales df r;
          tax = fillna0 (tax_pct r);
          precio_de_tarifa = fillna0 (Precio_Tarifa r);
          tarifa_con_impuestos = precio_de_tarifa * (1 + tax)
      in case calculos df incluir_impuestos tipo_recargo_envio valor_recargo_envio r of
           (precio_final, cargo_por_vender, recargo_financiacion, retenciones, recibis,
            denominador_invalido) \<Rightarrow>
             \<lparr> origen = r,
               Notas = (if denominador_invalido
                        then (if notas0 = [] then mensaje else notas0 @ ''; '' @ mensaje)
                        else notas0),
               Precio_de_Tarifa = round2 precio_de_tarifa,
               Tarifa_mas_impuestos = round2 tarifa_con_impuestos,
               Recargo_pct_ML = round2 (precio_final * fillna0 (fee_pct r)),
               Recargo_fijo_ML = round2 (if denominador_invalido then 0 else fillna0 (fee_fixed r)),
               Cargo_por_vender = round2 cargo_por_vender,
               Recargo_financiacion = round2 recargo_financiacion,
               Recargo_envio =
                 round2 (envio df incluir_impuestos tipo_recargo_envio valor_recargo_envio r),
               Retenciones_ML = round2 retenciones,
               Recibis = round2 recibis,
               IVA = round2 (if 0 < tax then precio_final * tax / (1 + tax) else 0),
               Precio_final = round2 precio_final,
               pct_ML_aplicado = round2 (fillna0 (fee_pct r) * 100),
               pct_financiacion_aplicado = round2 (fillna0 (financing_pct r) * 100) \<rparr>)"

text \<open>\<open>base_financiacion\<close> is an argument of \<open>calcular\<close> that its body never reads.\<close>

definition calcular ::
  "frame \<Rightarrow> string \<Rightarrow> bool \<Rightarrow> string option \<Rightarrow> valor \<Rightarrow> resultado list" where
  "calcular df base_financiacion incluir_impuestos tipo_recargo_envio valor_recargo_envio =
     map (calcular_fila df incluir_impuestos tipo_recargo_envio valor_recargo_envio) (filas df)"

section \<open>The solver in double precision\<close>

text \<open>
  Python's \<open>float\<close> is the IEEE 754 binary64 format, and so is the \<open>float64\<close> of the
  columns. A finite double is given by the rational it denotes (\<open>-0.0\<close> is not told from
  \<open>0.0\<close>, which it equals); with the two infinities and NaN these are the values of \<open>fval\<close>.
  An arithmetic operation returns the exact result rounded to the nearest double, a tie
  going to the double whose significand is even.
\<close>

subsection \<open>Rounding to the nearest double\<close>

text \<open>\<open>pot2 k\<close> is \<open>2^k\<close>, for any integer \<open>k\<close>.\<close>

definition pot2 :: "int \<Rightarrow> rat" where
  "pot2 k = 2 powi k"

text \<open>
  For \<open>0 < x\<close>, \<open>ilog2 x\<close> is the exponent \<open>e\<close> with \<open>2^e \<le> x < 2^(e+1)\<close>, found from the
  bit lengths of the numerator and the denominator of \<open>x\<close>.
\<close>

definition ilog2 :: "rat \<Rightarrow> int" where
  "ilog2 x =
     (case quotient_of x of
        (a, b) \<Rightarrow> (let e0 = bitlen a - bitlen b in if pot2 e0 \<le> x then e0 else e0 - 1))"

text \<open>
  The double nearest to \<open>x\<close>. A significand has 53 bits, so between \<open>2^e\<close> and \<open>2^(e+1)\<close>
  the doubles are the multiples of \<open>2^(e-52)\<close>; the smallest spacing is \<open>2^-1074\<close>, that of
  the subnormal doubles. \<open>x\<close> is rounded to the nearest multiple of its spacing, a tie going
  to the even multiple. A result of magnitude \<open>2^1024\<close> or more is an infinity.
\<close>

definition redondear :: "rat \<Rightarrow> fval" where
  "redondear x =
     (if x = 0 then Num 0
      else
        (let e = ilog2 \<bar>x\<bar>;
             q = max (e - 52) (- 1074);
             y = of_int (rint (\<bar>x\<bar> / pot2 q)) * pot2 q
         in if pot2 1024 \<le> y then (if 0 < x then PInf else NInf)
            else Num (if 0 < x then y else - y)))"

text \<open>\<open>es_doble x\<close>: the rational \<open>x\<close> is a double.\<close>

definition es_doble :: "rat \<Rightarrow> bool" where
  "es_doble x \<longleftrightarrow> redondear x = Num x"

subsection \<open>Arithmetic and comparison of doubles\<close>

text \<open>
  \<open>-a\<close>, \<open>a + b\<close>, \<open>a - b\<close>, \<open>a * b\<close>, \<open>a / b\<close> and \<open>a <= b\<close> on Python floats. An overflow
  gives an infinity; an operation without a value (\<open>inf - inf\<close>, \<open>inf * 0.0\<close>, \<open>inf / inf\<close>)
  and any operation on NaN give NaN; a comparison with NaN is false. Only the division
  raises: \<open>fdiv a b\<close> is \<open>None\<close> for Python's ZeroDivisionError, raised when \<open>b\<close> is zero.
\<close>

fun fneg :: "fval \<Rightarrow> fval" where
  "fneg (Num x) = Num (- x)"
| "fneg PInf = NInf"
| "fneg NInf = PInf"
| "fneg NaN = NaN"

fun fadd :: "fval \<Rightarrow> fval \<Rightarrow> fval" where
  "fadd (Num x) (Num y) = redondear (x + y)"
| "fadd NaN b = NaN"
| "fadd a NaN = NaN"
| "fadd PInf NInf = NaN"
| "fadd NInf PInf = NaN"
| "fadd PInf b = PInf"
| "fadd a PInf = PInf"
| "fadd NInf b = NInf"
| "fadd a NInf = NInf"

definition fsub :: "fval \<Rightarrow> fval \<Rightarrow> fval" where
  "fsub a b = fadd a (fneg b)"

fun fmul :: "fval \<Rightarrow> fval \<Rightarrow> fval" where
  "fmul (Num x) (Num y) = redondear (x * y)"
| "fmul NaN b = NaN"
| "fmul a NaN = NaN"
| "fmul PInf (Num y) = (if y = 0 then NaN else if 0 < y then PInf else NInf)"
| "fmul NInf (Num y) = (if y = 0 then NaN else if 0 < y then NInf else PInf)"
| "fmul (Num x) PInf = (if x = 0 then NaN else if 0 < x then PInf else NInf)"
| "fmul (Num x) NInf = (if x = 0 then NaN else if 0 < x then NInf else PInf)"
| "fmul PInf PInf = PInf"
| "fmul PInf NInf = NInf"
| "fmul NInf PInf = NInf"
| "fmul NInf NInf = PInf"

fun fdiv :: "fval \<Rightarrow> fval \<Rightarrow> fval option" where
  "fdiv (Num x) (Num y) = (if y = 0 then None else Some (redondear (x / y)))"
| "fdiv NaN (Num y) = (if y = 0 then None else Some NaN)"
| "fdiv PInf (Num y) = (if y = 0 then None else if 0 < y then Some PInf else Some NInf)"
| "fdiv NInf (Num y) = (if y = 0 then None else if 0 < y then Some NInf else Some PInf)"
| "fdiv a NaN = Some NaN"
| "fdiv NaN b = Some NaN"
| "fdiv (Num x) b = Some (Num 0)"
| "fdiv a b = Some NaN"

fun fle :: "fval \<Rightarrow> fval \<Rightarrow> bool" where
  "fle (Num x) (Num y) = (x \<le> y)"
| "fle NaN b = False"
| "fle a NaN = False"
| "fle NInf b = True"
| "fle a PInf = True"
| "fle a b = False"

subsection \<open>\<open>utils.calcular_precio_publicacion_ml\<close> on doubles\<close>

text \<open>
  \<open>float(x or 0.0)\<close> on a double or \<open>None\<close>: \<open>None\<close> and zero are falsy and give \<open>0.0\<close>; NaN
  and the infinities are truthy and are kept.
\<close>

definition float_or0_f64 :: "fval option \<Rightarrow> fval" where
  "float_or0_f64 x =
     (case x of None \<Rightarrow> Num 0 | Some v \<Rightarrow> (if v = Num 0 then Num 0 else v))"

text \<open>
  The solver as the program evaluates it: each operation of the source in its order, each
  rounded. The result is \<open>None\<close> when the division raises, else the tuple
  (precio_publicacion, cargo_por_vender, costo_por_ofrecer_cuotas, retenciones, recibis,
  denominador_invalido).
\<close>

definition calcular_precio_publicacion_ml_f64 ::
  "fval option \<Rightarrow> fval option \<Rightarrow> fval option \<Rightarrow> fval option \<Rightarrow> fval option
     \<Rightarrow> (fval \<times> fval \<times> fval \<times> fval \<times> fval \<times> bool) option" where
  "calcular_precio_publicacion_ml_f64 tarifa_neta0 porcentaje_comision0 porcentaje_financiacion0
       porcentaje_retenciones0 costo_fijo0 =
     (let tarifa_neta = float_or0_f64 tarifa_neta0;
          porcentaje_comision = float_or0_f64 porcentaje_comision0;
          porcentaje_financiacion = float_or0_f64 porcentaje_financiacion0;
          porcentaje_retenciones = float_or0_f64 porcentaje_retenciones0;
          costo_fijo = float_or0_f64 costo_fijo0;
          total_porcentual =
            fadd (fadd porcentaje_comision porcentaje_financiacion) porcentaje_retenciones;
          denominador = fsub (Num 1) total_porcentual
      in if fle denominador (Num 0) then Some (Num 0, Num 0, Num 0, Num 0, Num 0, True)
         else
           (case fdiv (fadd tarifa_neta costo_fijo) denominador of
              None \<Rightarrow> None
            | Some precio_publicacion \<Rightarrow>
                (let cargo_por_vender = fadd (fmul precio_publicacion porcentaje_comision) costo_fijo;
                     costo_por_ofrecer_cuotas = fmul precio_publicacion porcentaje_financiacion;
                     retenciones = fmul precio_publicacion porcentaje_retenciones;
                     recibis = fsub precio_publicacion
                                 (fadd (fadd cargo_por_vender costo_por_ofrecer_cuotas) retenciones)
                 in Some (precio_publicacion, cargo_por_vender, costo_por_ofrecer_cuotas,
                          retenciones, recibis, False))))"


subsection \<open>\<open>data_processor.calcular\<close>: the columns set from the solver's results\<close>

text \<open>
  The part of \<open>calcular\<close> from the calls of the solver to the rounding of the columns, on
  doubles. A row holds what this part reads: its entry of the series \<open>tarifa_objetivo\<close>
  (computed before, from the price, the tax and the shipping surcharge), its cells of the
  columns \<open>fee_pct\<close>, \<open>fee_fixed\<close>, \<open>financing_pct\<close> and \<open>retenciones_pct\<close> as
  \<open>pd.to_numeric(_, errors='coerce')\<close> gives them (NaN for a missing or non-numeric cell),
  and its cell of \<open>'Notas/Flags'\<close>.
\<close>

record fila_f64 =
  tarifa_objetivo_f64 :: fval
  fee_pct_f64 :: fval
  fee_fixed_f64 :: fval
  financing_pct_f64 :: fval
  retenciones_pct_f64 :: fval
  Notas_Flags_f64 :: "string option"

text \<open>The frame: its rows, and whether it has the columns \<open>'retenciones_pct'\<close> and \<open>'Notas/Flags'\<close>.\<close>

record frame_f64 =
  filas_f64 :: "fila_f64 list"
  col_retenciones_pct_f64 :: bool
  col_Notas_Flags_f64 :: bool

text \<open>The columns of the result that are set from the solver's results, for one row.\<close>

record resultado_f64 =
  Notas_f64 :: string
  Precio_final_f64 :: fval
  Cargo_por_vender_f64 :: fval
  Recargo_financiacion_f64 :: fval
  Retenciones_ML_f64 :: fval
  Recibis_f64 :: fval
  Recargo_fijo_ML_f64 :: fval
  Recargo_pct_ML_f64 :: fval

text \<open>\<open>.fillna(0.0)\<close> on one cell of a numeric column.\<close>

definition fillna0_f64 :: "fval \<Rightarrow> fval" where
  "fillna0_f64 v = (if v = NaN then Num 0 else v)"

text \<open>
  \<open>Series.round(2)\<close> on a column of doubles: numpy multiplies by \<open>100.0\<close>, rounds to the
  nearest integer (a tie going to the even one) and divides by \<open>100.0\<close>; an infinity and
  NaN stay as they are.
\<close>

definition round2_f64 :: "fval \<Rightarrow> fval" where
  "round2_f64 v =
     (case fmul v (Num 100) of
        Num y \<Rightarrow> redondear (of_int (rint y) / 100)
      | PInf \<Rightarrow> PInf
      | NInf \<Rightarrow> NInf
      | NaN \<Rightarrow> NaN)"

definition retenciones_pct_serie_f64 :: "frame_f64 \<Rightarrow> fila_f64 \<Rightarrow> fval" where
  "retenciones_pct_serie_f64 df r =
     (if col_retenciones_pct_f64 df then fillna0_f64 (retenciones_pct_f64 r) else Num 0)"

text \<open>The entry of the list \<open>calculos\<close> for one row: the call of the solver.\<close>

definition calculos_f64 ::
  "frame_f64 \<Rightarrow> fila_f64 \<Rightarrow> (fval \<times> fval \<times> fval \<times> fval \<times> fval \<times> bool) option" where
  "calculos_f64 df r =
     calcular_precio_publicacion_ml_f64
       (Some (tarifa_objetivo_f64 r))
       (Some (fillna0_f64 (fee_pct_f64 r)))
       (Some (fillna0_f64 (financing_pct_f64 r)))
       (Some (retenciones_pct_serie_f64 df r))
       (Some (fillna0_f64 (fee_fixed_f64 r)))"

definition notas_iniciales_f64 :: "frame_f64 \<Rightarrow> fila_f64 \<Rightarrow> string" where
  "notas_iniciales_f64 df r =
     (if col_Notas_Flags_f64 df then fillna_str (Notas_Flags_f64 r) else [])"

text \<open>
  The columns of one row: the solver's results, the percentage and the fixed charge, the
  flag of a row without solution, and the rounding. \<open>None\<close> when the call of the solver
  raises.
\<close>

definition calcular_fila_f64 :: "frame_f64 \<Rightarrow> fila_f64 \<Rightarrow> resultado_f64 option" where
  "calcular_fila_f64 df r =
     (let notas0 = notas_iniciales_f64 df r
      in case calculos_f64 df r of
           None \<Rightarrow> None
         | Some (precio_final, cargo_por_vender, recargo_financiacion, retenciones, recibis,
                 denominador_invalido) \<Rightarrow>
             Some \<lparr> Notas_f64 = (if denominador_invalido
                                 then (if notas0 = [] then mensaje else notas0 @ ''; '' @ mensaje)
                                 else notas0),
                    Precio_final_f64 = round2_f64 precio_final,
                    Cargo_por_vender_f64 = round2_f64 cargo_por_vender,
                    Recargo_financiacion_f64 = round2_f64 recargo_financiacion,
                    Retenciones_ML_f64 = round2_f64 retenciones,
                    Recibis_f64 = round2_f64 recibis,
                    Recargo_fijo_ML_f64 =
                      round2_f64 (if denominador_invalido then Num 0
                                  else fillna0_f64 (fee_fixed_f64 r)),
                    Recargo_pct_ML_f64 =
                      round2_f64 (fmul precio_final (fillna0_f64 (fee_pct_f64 r))) \<rparr>)"

text \<open>The results of all the rows, or \<open>None\<close> when the computation of one of them raises.\<close>

fun todas :: "'a option list \<Rightarrow> 'a list option" where
  "todas [] = Some []"
| "todas (None # xs) = None"
| "todas (Some x # xs) = (case todas xs of None \<Rightarrow> None | Some ys \<Rightarrow> Some (x # ys))"

definition calcular_f64 :: "frame_f64 \<Rightarrow> resultado_f64 list option" where
  "calcular_f64 df = todas (map (calcular_fila_f64 df) (filas_f64 df))"

section \<open>The linker (\<open>data_processor.unir_y_validar\<close>)\<close>

text \<open>
  The rows of the two frames the linker receives, with the columns that it or the pricing
  computation reads. The keys, \<open>SKU\<close> and the code of the catalog, are texts. Each frame may carry
  a column \<open>retenciones_pct\<close>, which no function of the program creates.
\<close>

record fila_ml =
  SKU_ml :: string
  SHIPPING_METHOD_ml :: "string option"
  fee_pct_ml :: "rat option"
  fee_fixed_ml :: "rat option"
  financing_pct_ml :: "rat option"
  retenciones_pct_ml :: "rat option"

record frame_ml =
  filas_ml :: "fila_ml list"
  col_SHIPPING_METHOD_ml :: bool
  col_retenciones_pct_ml :: bool

record fila_odoo =
  Codigo_Neored_odoo :: string
  Precio_Tarifa_odoo :: "rat option"
  Cantidad_a_mano_odoo :: "rat option"
  tax_pct_odoo :: "rat option"
  retenciones_pct_odoo :: "rat option"

record frame_odoo =
  filas_odoo :: "fila_odoo list"
  col_retenciones_pct_odoo :: bool

text \<open>
  The left merge of \<open>df_ml\<close> and \<open>df_odoo\<close> on \<open>SKU\<close> and the code of the catalog: each
  listing row, in order, with each catalog row of its key, in order, or with none.
\<close>

definition merge_left :: "frame_ml \<Rightarrow> frame_odoo \<Rightarrow> (fila_ml \<times> fila_odoo option) list" where
  "merge_left df_ml df_odoo =
     concat (map (\<lambda>l. case filter (\<lambda>c. Codigo_Neored_odoo c = SKU_ml l) (filas_odoo df_odoo) of
                          [] \<Rightarrow> [(l, None)]
                        | m # ms \<Rightarrow> map (\<lambda>c. (l, Some c)) (m # ms))
                 (filas_ml df_ml))"

text \<open>
  The merged row, before the notes. The catalog cells of a row without a match are
  missing. A column \<open>retenciones_pct\<close> that both frames carry is renamed on both sides
  (\<open>suffixes=('_ml', '_odoo')\<close>), so the merged frame has it under that name only when
  exactly one frame carries it.
\<close>

definition fila_unida :: "bool \<Rightarrow> bool \<Rightarrow> fila_ml \<times> fila_odoo option \<Rightarrow> fila" where
  "fila_unida ret_ml ret_odoo p =
     (case p of (l, c) \<Rightarrow>
        \<lparr> SKU = SKU_ml l,
          SHIPPING_METHOD = SHIPPING_METHOD_ml l,
          fee_pct = fee_pct_ml l,
          fee_fixed = fee_fixed_ml l,
          financing_pct = financing_pct_ml l,
          retenciones_pct =
            (if ret_ml \<and> \<not> ret_odoo then retenciones_pct_ml l
             else if ret_odoo \<and> \<not> ret_ml then
               (case c of None \<Rightarrow> None | Some cat \<Rightarrow> retenciones_pct_odoo cat)
             else None),
          Codigo_Neored = (case c of None \<Rightarrow> None | Some cat \<Rightarrow> Some (Codigo_Neored_odoo cat)),
          Precio_Tarifa = (case c of None \<Rightarrow> None | Some cat \<Rightarrow> Precio_Tarifa_odoo cat),
          Cantidad_a_mano = (case c of None \<Rightarrow> None | Some cat \<Rightarrow> Cantidad_a_mano_odoo cat),
          tax_pct = (case c of None \<Rightarrow> None | Some cat \<Rightarrow> tax_pct_odoo cat),
          Notas_Flags = Some [] \<rparr>)"

text \<open>The notes of a merged row: the three checks in their order, then \<open>.str.strip('; ')\<close>.\<close>

definition notas_flags :: "fila \<Rightarrow> string" where
  "notas_flags r =
     (let n0 = [];
          n1 = (if Codigo_Neored r = None then ''SKU no encontrado en Odoo'' else n0);
          n2 = (if Precio_Tarifa r = None \<or> Precio_Tarifa r = Some 0
                then n1 @ ''; Precio Tarifa faltante'' else n1);
          n3 = (if Cantidad_a_mano r = None then n2 @ ''; Stock faltante'' else n2)
      in strip_chars ''; '' n3)"

definition unir_y_validar :: "frame_ml \<Rightarrow> frame_odoo \<Rightarrow> frame" where
  "unir_y_validar df_ml df_odoo =
     \<lparr> filas =
         map (\<lambda>p. (fila_unida (col_retenciones_pct_ml df_ml) (col_retenciones_pct_odoo df_odoo) p)
                    \<lparr> Notas_Flags :=
                        Some (notas_flags (fila_unida (col_retenciones_pct_ml df_ml)
                                             (col_retenciones_pct_odoo df_odoo) p)) \<rparr>)
             (merge_left df_ml df_odoo),
       col_SHIPPING_METHOD = col_SHIPPING_METHOD_ml df_ml,
       col_retenciones_pct = (col_retenciones_pct_ml df_ml \<noteq> col_retenciones_pct_odoo df_odoo),
       col_Notas_Flags = True \<rparr>"

section \<open>The loaders (\<open>data_processor.leer_ml\<close>, \<open>leer_odoo\<close>)\<close>

text \<open>
  The loaders are modelled from the frame \<open>pd.read_excel\<close> returns, once
  \<open>validate_excel_structure\<close> has accepted it. A text cell is the text of the cell or
  missing. \<open>read_excel\<close> keeps every column of the sheet, so a sheet may bring a column
  \<open>retenciones_pct\<close> of its own.
\<close>

record fila_ml_excel =
  ITEM_ID :: "string option"
  SKU_excel :: "string option"
  FEE_PER_SALE_MARKETPLACE_V2 :: "string option"
  COST_OF_FINANCING_MARKETPLACE :: "string option"
  SHIPPING_METHOD_excel :: "string option"
  retenciones_pct_ml_excel :: "rat option"

record frame_ml_excel =
  filas_ml_excel :: "fila_ml_excel list"
  col_retenciones_pct_ml_excel :: bool

text \<open>
  The numeric cells of the catalog sheet are given as \<open>pd.to_numeric(_, errors='coerce')\<close>
  reads them.
\<close>

record fila_odoo_excel =
  Codigo_Neored_excel :: "string option"
  Precio_Tarifa_excel :: "rat option"
  Cantidad_a_mano_excel :: "rat option"
  Impuestos_del_cliente :: "string option"
  retenciones_pct_odoo_excel :: "rat option"

record frame_odoo_excel =
  filas_odoo_excel :: "fila_odoo_excel list"
  col_retenciones_pct_odoo_excel :: bool

text \<open>
  A parsed value as a cell of a frame: a number, or NaN as the missing cell. The cells of
  the frames are rationals, which have no infinity: the outer \<open>None\<close> marks a value this
  model of the frames cannot hold.
\<close>

definition celda :: "fval \<Rightarrow> rat option option" where
  "celda v = (case v of Num x \<Rightarrow> Some (Some x) | NaN \<Rightarrow> Some None | PInf \<Rightarrow> None | NInf \<Rightarrow> None)"

text \<open>The mask of \<open>utils.clean_ml_data\<close> on one row.\<close>

definition valid_mask :: "fila_ml_excel \<Rightarrow> bool" where
  "valid_mask r =
     ((case ITEM_ID r of None \<Rightarrow> False | Some i \<Rightarrow> startswith i ''ML'')
      \<and> (case SKU_excel r of None \<Rightarrow> False | Some k \<Rightarrow> py_strip k \<noteq> []))"

definition clean_ml_data :: "fila_ml_excel list \<Rightarrow> fila_ml_excel list" where
  "clean_ml_data df = filter valid_mask df"

text \<open>The columns \<open>leer_ml\<close> adds to one cleaned row.\<close>

definition leer_ml_fila :: "fila_ml_excel \<Rightarrow> fila_ml option" where
  "leer_ml_fila r =
     (case parse_fee_combo (FEE_PER_SALE_MARKETPLACE_V2 r) of
        (pct, fixed) \<Rightarrow>
          (case (celda pct, celda fixed, celda (parse_pct (COST_OF_FINANCING_MARKETPLACE r))) of
             (Some a, Some b, Some c) \<Rightarrow>
               Some \<lparr> SKU_ml = fillna_str (SKU_excel r),
                      SHIPPING_METHOD_ml = SHIPPING_METHOD_excel r,
                      fee_pct_ml = a, fee_fixed_ml = b, financing_pct_ml = c,
                      retenciones_pct_ml = retenciones_pct_ml_excel r \<rparr>
           | _ \<Rightarrow> None))"

text \<open>
  \<open>leer_ml\<close> after the sheet is read and accepted (the shipping column is among the
  required ones). \<open>None\<close>: some parsed cell is outside the frames of this model.
\<close>

definition leer_ml :: "frame_ml_excel \<Rightarrow> frame_ml option" where
  "leer_ml df =
     map_option (\<lambda>xs. \<lparr> filas_ml = xs, col_SHIPPING_METHOD_ml = True,
                         col_retenciones_pct_ml = col_retenciones_pct_ml_excel df \<rparr>)
       (those (map leer_ml_fila (clean_ml_data (filas_ml_excel df))))"

subsection \<open>\<open>utils.extract_tax_percentage\<close>\<close>

definition sigue_pct :: "string \<Rightarrow> bool" where
  "sigue_pct r = (case dropWhile es_espacio r of [] \<Rightarrow> False | x # r' \<Rightarrow> x = CHR ''%'')"

text \<open>
  \<open>re.search(r'(\d+(?:\.\d+)?)\s*%', tax_text)\<close>: group 1 of the leftmost match. At a
  start position the digits are taken as far as they go, with the decimal part when the
  match can be completed after it and without it otherwise.
\<close>

fun tax_match :: "string \<Rightarrow> string option" where
  "tax_match [] = None"
| "tax_match (c # cs) =
     (let d1 = takeWhile is_digit (c # cs);
          r1 = dropWhile is_digit (c # cs);
          d2 = (case r1 of [] \<Rightarrow> [] | x # r \<Rightarrow> if x = CHR ''.'' then takeWhile is_digit r else []);
          r2 = (case r1 of [] \<Rightarrow> [] | x # r \<Rightarrow> if x = CHR ''.'' then dropWhile is_digit r else [])
      in if d1 = [] then tax_match cs
         else if d2 \<noteq> [] \<and> sigue_pct r2 then Some (d1 @ ''.'' @ d2)
         else if sigue_pct r1 then Some d1
         else tax_match cs)"

text \<open>The result is \<open>None\<close> where \<open>float\<close> would raise (the function does not catch it).\<close>

definition extract_tax_percentage :: "string option \<Rightarrow> fval option" where
  "extract_tax_percentage tax_text0 =
     (case tax_text0 of
        None \<Rightarrow> Some (Num 0)
      | Some t \<Rightarrow>
          (case tax_match (py_strip t) of
             Some g \<Rightarrow> map_option entre_100 (py_float g)
           | None \<Rightarrow> Some (Num 0)))"

definition leer_odoo_fila :: "fila_odoo_excel \<Rightarrow> fila_odoo option" where
  "leer_odoo_fila r =
     (case extract_tax_percentage (Impuestos_del_cliente r) of
        None \<Rightarrow> None
      | Some v \<Rightarrow>
          (case celda v of
             None \<Rightarrow> None
           | Some t \<Rightarrow>
               Some \<lparr> Codigo_Neored_odoo = fillna_str (Codigo_Neored_excel r),
                      Precio_Tarifa_odoo = Some (fillna0 (Precio_Tarifa_excel r)),
                      Cantidad_a_mano_odoo = Some (fillna0 (Cantidad_a_mano_excel r)),
                      tax_pct_odoo = t,
                      retenciones_pct_odoo = retenciones_pct_odoo_excel r \<rparr>))"

text \<open>
  \<open>leer_odoo\<close> after the sheet is read and accepted: the rows with a code are kept.
  \<open>None\<close>: an exception, or a cell outside the frames of this model.
\<close>

definition leer_odoo :: "frame_odoo_excel \<Rightarrow> frame_odoo option" where
  "leer_odoo df =
     map_option (\<lambda>xs. \<lparr> filas_odoo = xs,
                         col_retenciones_pct_odoo = col_retenciones_pct_odoo_excel df \<rparr>)
       (those (map leer_odoo_fila
                 (filter (\<lambda>r. Codigo_Neored_excel r \<noteq> None) (filas_odoo_excel df))))"

section \<open>The assembled pipeline\<close>

text \<open>
  The sequence of \<open>app.main\<close> and \<open>run_test.main\<close>: both sheets are loaded, linked and
  priced.
\<close>

definition pipeline ::
  "frame_ml_excel \<Rightarrow> frame_odoo_excel \<Rightarrow> string \<Rightarrow> bool \<Rightarrow> string option \<Rightarrow> valor
     \<Rightarrow> resultado list option" where
  "pipeline ml_file odoo_file base_financiacion incluir_impuestos tipo_recargo_envio
       valor_recargo_envio =
     (case leer_ml ml_file of
        None \<Rightarrow> None
      | Some df_ml \<Rightarrow>
          (case leer_odoo odoo_file of
             None \<Rightarrow> None
           | Some df_odoo \<Rightarrow>
               Some (calcular (unir_y_validar df_ml df_odoo) base_financiacion incluir_impuestos
                       tipo_recargo_envio valor_recargo_envio)))"

section \<open>Example data\<close>

text \<open>
  Rows after the sample data of \<open>test_example.crear_datos_ejemplo\<close>, used to evaluate the
  theorems below on concrete inputs.
\<close>

definition por_mi_cuenta :: string where
  "por_mi_cuenta = ''Mercado Env'' @ [CHR 0xED] @ ''os por mi cuenta''"

definition clasico :: string where
  "clasico = ''Mercado Env'' @ [CHR 0xED] @ ''os Cl'' @ [CHR 0xE1] @ ''sico''"

definition fila_led :: "string option \<Rightarrow> fila" where
  "fila_led envio_txt =
     \<lparr> SKU = ''LED7012795'', SHIPPING_METHOD = envio_txt,
       fee_pct = Some (145 / 1000), fee_fixed = Some 1095, financing_pct = Some (4 / 100),
       retenciones_pct = None, Codigo_Neored = Some ''LED7012795'',
       Precio_Tarifa = Some 18500, Cantidad_a_mano = Some 250, tax_pct = Some (21 / 100),
       Notas_Flags = Some [] \<rparr>"

definition frame_de :: "bool \<Rightarrow> fila list \<Rightarrow> frame" where
  "frame_de con_envio xs =
     \<lparr> filas = xs, col_SHIPPING_METHOD = con_envio, col_retenciones_pct = False,
       col_Notas_Flags = True \<rparr>"

text \<open>A listing frame and a catalog frame: the first listing row has a match, the second none.\<close>

definition ml_ejemplo :: frame_ml where
  "ml_ejemplo =
     \<lparr> filas_ml =
         [\<lparr> SKU_ml = ''LED7012795'', SHIPPING_METHOD_ml = Some por_mi_cuenta,
            fee_pct_ml = Some (145 / 1000), fee_fixed_ml = Some 1095,
            financing_pct_ml = Some (4 / 100), retenciones_pct_ml = None \<rparr>,
          \<lparr> SKU_ml = ''NOEXISTE123'', SHIPPING_METHOD_ml = Some ''Retiro en tienda'',
            fee_pct_ml = Some (16 / 100), fee_fixed_ml = Some 1200,
            financing_pct_ml = Some (45 / 1000), retenciones_pct_ml = None \<rparr>],
       col_SHIPPING_METHOD_ml = True, col_retenciones_pct_ml = False \<rparr>"

definition odoo_ejemplo :: frame_odoo where
  "odoo_ejemplo =
     \<lparr> filas_odoo =
         [\<lparr> Codigo_Neored_odoo = ''LED7012795'', Precio_Tarifa_odoo = Some 18500,
            Cantidad_a_mano_odoo = Some 250, tax_pct_odoo = Some (21 / 100),
            retenciones_pct_odoo = None \<rparr>,
          \<lparr> Codigo_Neored_odoo = ''EXTRA12345'', Precio_Tarifa_odoo = Some 2000,
            Cantidad_a_mano_odoo = Some 100, tax_pct_odoo = Some (21 / 100),
            retenciones_pct_odoo = None \<rparr>],
       col_retenciones_pct_odoo = False \<rparr>"

text \<open>
  The two sheets as read: one listing and its catalog entry. The listing sheet brings a
  column \<open>retenciones_pct\<close> with 1% when \<open>con_retenciones\<close> is set.
\<close>

definition ml_excel_ejemplo :: "bool \<Rightarrow> frame_ml_excel" where
  "ml_excel_ejemplo con_retenciones =
     \<lparr> filas_ml_excel =
         [\<lparr> ITEM_ID = Some ''MLA934071512'', SKU_excel = Some ''LED7012795'',
            FEE_PER_SALE_MARKETPLACE_V2 = Some ''14.50% + $1095.00'',
            COST_OF_FINANCING_MARKETPLACE = Some ''4.00%'',
            SHIPPING_METHOD_excel = Some por_mi_cuenta,
            retenciones_pct_ml_excel = (if con_retenciones then Some (1 / 100) else None) \<rparr>],
       col_retenciones_pct_ml_excel = con_retenciones \<rparr>"

definition odoo_excel_ejemplo :: frame_odoo_excel where
  "odoo_excel_ejemplo =
     \<lparr> filas_odoo_excel =
         [\<lparr> Codigo_Neored_excel = Some ''LED7012795'', Precio_Tarifa_excel = Some 18500,
            Cantidad_a_mano_excel = Some 250, Impuestos_del_cliente = Some ''IVA Ventas 21%'',
            retenciones_pct_odoo_excel = None \<rparr>],
       col_retenciones_pct_odoo_excel = False \<rparr>"

text \<open>A row of doubles whose percentage fees add up to 100%, in a frame with both columns.\<close>

definition fila_inviable_f64 :: fila_f64 where
  "fila_inviable_f64 =
     \<lparr> tarifa_objetivo_f64 = Num 0, fee_pct_f64 = Num (1 / 2), fee_fixed_f64 = Num 500,
       financing_pct_f64 = Num (1 / 4), retenciones_pct_f64 = Num (1 / 4),
       Notas_Flags_f64 = Some ''Precio Tarifa faltante'' \<rparr>"

definition frame_f64_de :: "fila_f64 list \<Rightarrow> frame_f64" where
  "frame_f64_de xs =
     \<lparr> filas_f64 = xs, col_retenciones_pct_f64 = True, col_Notas_Flags_f64 = True \<rparr>"

section \<open>Properties\<close>




subsection \<open>Rounding to the nearest double\<close>

lemma float_or0_f64_Some: "float_or0_f64 (Some v) = v"
  by (simp add: float_or0_f64_def)

lemma pot2_pos: "0 < pot2 k"
  by (simp add: pot2_def)

lemma pot2_less: "pot2 a < pot2 b \<longleftrightarrow> a < b"
  unfolding pot2_def
  by (metis power_int_strict_increasing not_less_iff_gr_or_eq one_less_numeral_iff
      semiring_norm(76) order_less_asym)

lemma pot2_add: "pot2 (a + b) = pot2 a * pot2 b"
  by (simp add: pot2_def power_int_add)

lemma pot2_le: "pot2 a \<le> pot2 b \<longleftrightarrow> a \<le> b"
  using pot2_less [of b a] by (simp add: not_less [symmetric])

lemma pot2_neg: "pot2 (- int n) = 1 / 2 ^ n"
  by (simp add: pot2_def power_int_minus inverse_eq_divide)

lemma pot2_m53: "pot2 (- 53) = 1 / 2 ^ 53"
  using pot2_neg [of 53] by simp

lemma pot2_numeral: "pot2 (numeral n) = 2 ^ numeral n"
  by (simp add: pot2_def)

lemma pot2_neg_numeral: "pot2 (- numeral n) = 1 / 2 ^ numeral n"
  using pot2_neg [of "numeral n"] by simp

lemma pot2_0: "pot2 0 = 1"
  by (simp add: pot2_def)

lemma pot2_1: "pot2 1 = 2"
  by (simp add: pot2_def)

lemma pot2_m1: "pot2 (- 1) = 1 / 2"
  using pot2_neg [of 1] by simp

lemmas pot2_eval = pot2_numeral pot2_neg_numeral pot2_0 pot2_1 pot2_m1

lemma bajo_1024:
  assumes "\<bar>m\<bar> \<le> 2 ^ 53" and "q \<le> 970"
  shows "of_int m * pot2 q < pot2 1024"
proof -
  have "m \<le> 2 ^ 53" using assms(1) by simp
  then have "(of_int m :: rat) \<le> of_int (2 ^ 53)" by (simp only: of_int_le_iff)
  then have "(of_int m :: rat) \<le> pot2 53" by (simp add: pot2_def)
  then have "of_int m * pot2 q \<le> pot2 53 * pot2 q"
    using pot2_pos [of q] by (simp add: mult_right_mono)
  also have "\<dots> = pot2 (53 + q)" by (simp add: pot2_add)
  also have "\<dots> < pot2 1024" using assms(2) by (simp add: pot2_less)
  finally show ?thesis .
qed

lemma ilog2_bounds:
  assumes "0 < x"
  shows "pot2 (ilog2 x) \<le> x \<and> x < pot2 (ilog2 x + 1)"
proof -
  obtain a b where q: "quotient_of x = (a, b)" by (cases "quotient_of x")
  then have b: "0 < b" by (rule quotient_of_denom_pos)
  from q have x: "x = of_int a / of_int b" by (rule quotient_of_div)
  with assms(1) b have a: "0 < a" by (simp add: zero_less_divide_iff)
  let ?e0 = "bitlen a - bitlen b"
  have ba: "1 \<le> bitlen a" "1 \<le> bitlen b"
    using a b bitlen_eq_zero_iff [of a] bitlen_eq_zero_iff [of b] bitlen_nonneg [of a]
      bitlen_nonneg [of b] by linarith+
  have ua: "(of_int a :: rat) < pot2 (bitlen a)"
  proof -
    have "a < 2 ^ nat (bitlen a)" using bitlen_bounds [OF a] by simp
    then have "(of_int a :: rat) < of_int (2 ^ nat (bitlen a))" by (simp only: of_int_less_iff)
    then show ?thesis using ba by (simp add: pot2_def power_int_def)
  qed
  have la: "pot2 (bitlen a - 1) \<le> (of_int a :: rat)"
  proof -
    have "2 ^ nat (bitlen a - 1) \<le> a" using bitlen_bounds [OF a] by simp
    then have "(of_int (2 ^ nat (bitlen a - 1)) :: rat) \<le> of_int a" by (simp only: of_int_le_iff)
    then show ?thesis using ba by (simp add: pot2_def power_int_def)
  qed
  have ub: "(of_int b :: rat) < pot2 (bitlen b)"
  proof -
    have "b < 2 ^ nat (bitlen b)" using bitlen_bounds [OF b] by simp
    then have "(of_int b :: rat) < of_int (2 ^ nat (bitlen b))" by (simp only: of_int_less_iff)
    then show ?thesis using ba by (simp add: pot2_def power_int_def)
  qed
  have lb: "pot2 (bitlen b - 1) \<le> (of_int b :: rat)"
  proof -
    have "2 ^ nat (bitlen b - 1) \<le> b" using bitlen_bounds [OF b] by simp
    then have "(of_int (2 ^ nat (bitlen b - 1)) :: rat) \<le> of_int b" by (simp only: of_int_le_iff)
    then show ?thesis using ba by (simp add: pot2_def power_int_def)
  qed
  have bp: "(0::rat) < of_int b" using b by simp
  have up: "x < pot2 (?e0 + 1)"
  proof -
    have "x * of_int b = of_int a" using bp by (simp add: x)
    also have "\<dots> < pot2 (bitlen a)" by (rule ua)
    also have "\<dots> = pot2 (?e0 + 1) * pot2 (bitlen b - 1)"
      by (simp add: pot2_def power_int_add [symmetric])
    also have "\<dots> \<le> pot2 (?e0 + 1) * of_int b"
      using lb pot2_pos [of "?e0 + 1"] by (simp add: mult_left_mono)
    finally show ?thesis using bp by simp
  qed
  have lo: "pot2 (?e0 - 1) < x"
  proof -
    have "pot2 (?e0 - 1) * of_int b < pot2 (?e0 - 1) * pot2 (bitlen b)"
      using ub pot2_pos [of "?e0 - 1"] by (simp add: mult_strict_left_mono)
    also have "\<dots> = pot2 (bitlen a - 1)"
      by (simp add: pot2_def power_int_add [symmetric])
    also have "\<dots> \<le> of_int a" by (rule la)
    also have "\<dots> = x * of_int b" using bp by (simp add: x)
    finally show ?thesis using bp by simp
  qed
  show ?thesis
  proof (cases "pot2 ?e0 \<le> x")
    case True
    then have "ilog2 x = ?e0" by (simp add: ilog2_def q Let_def)
    then show ?thesis using True up by simp
  next
    case False
    then have "ilog2 x = ?e0 - 1" by (simp add: ilog2_def q Let_def)
    then show ?thesis using False lo by simp
  qed
qed

lemma ilog2_unique:
  assumes "0 < x" and "pot2 e \<le> x" and "x < pot2 (e + 1)"
  shows "ilog2 x = e"
proof -
  note b = ilog2_bounds [OF assms(1)]
  have "pot2 e < pot2 (ilog2 x + 1)" using assms(2) b by simp
  then have 1: "e \<le> ilog2 x" by (simp add: pot2_less)
  have "pot2 (ilog2 x) < pot2 (e + 1)" using assms(3) b by simp
  then have 2: "ilog2 x \<le> e" by (simp add: pot2_less)
  from 1 2 show ?thesis by simp
qed

lemma rint_of_int: "rint (of_int k) = k"
  by (simp add: rint_def Let_def)

lemma rint_nonneg: "0 \<le> x \<Longrightarrow> 0 \<le> rint x"
  by (simp add: rint_def Let_def)

lemma rint_cases: "rint x = \<lfloor>x\<rfloor> \<or> rint x = \<lfloor>x\<rfloor> + 1"
  by (simp add: rint_def Let_def)

lemma rint_lower: "x - 1 / 2 \<le> of_int (rint x)"
proof -
  define f where "f = \<lfloor>x\<rfloor>"
  have b: "of_int f \<le> x" "x < of_int f + 1" unfolding f_def by linarith+
  have r: "rint x = (if x - of_int f < 1 / 2 then f
                     else if 1 / 2 < x - of_int f then f + 1
                     else if even f then f else f + 1)"
    by (simp add: rint_def Let_def f_def)
  show ?thesis unfolding r using b by (simp split: if_splits)
qed

lemma rint_upper: "of_int (rint x) \<le> x + 1 / 2"
proof -
  define f where "f = \<lfloor>x\<rfloor>"
  have b: "of_int f \<le> x" "x < of_int f + 1" unfolding f_def by linarith+
  have r: "rint x = (if x - of_int f < 1 / 2 then f
                     else if 1 / 2 < x - of_int f then f + 1
                     else if even f then f else f + 1)"
    by (simp add: rint_def Let_def f_def)
  show ?thesis unfolding r using b by (simp split: if_splits)
qed

lemma rint_ge: "of_int k \<le> x \<Longrightarrow> k \<le> rint x"
  using rint_cases [of x] le_floor_iff [of k x] by auto

text \<open>The nearest integer of a value at most one half below an even integer.\<close>

lemma rint_even:
  assumes "of_int k - 1 / 2 \<le> x" and "x \<le> of_int k" and "even k"
  shows "rint x = k"
proof (cases "x = of_int k")
  case True
  then show ?thesis by (simp add: rint_of_int)
next
  case False
  then have lt: "x < of_int k" using assms(2) by simp
  have "of_int (k - 1) \<le> x" using assms(1) by simp
  then have f: "\<lfloor>x\<rfloor> = k - 1" using lt by (intro floor_unique) simp_all
  have "odd (k - 1)" using assms(3) by simp
  then show ?thesis using assms(1) by (auto simp add: rint_def Let_def f not_less)
qed

lemma rint_eq:
  assumes "\<bar>x - of_int m\<bar> < 1 / 2 \<or> (\<bar>x - of_int m\<bar> = 1 / 2 \<and> even m)"
  shows "rint x = m"
proof (cases "of_int m \<le> x")
  case True
  then have "\<lfloor>x\<rfloor> = m" using assms by (intro floor_unique) auto
  then show ?thesis using assms True by (auto simp add: rint_def Let_def)
next
  case False
  then have "\<lfloor>x\<rfloor> = m - 1" using assms by (intro floor_unique) auto
  then show ?thesis using assms False by (auto simp add: rint_def Let_def)
qed

lemma redondear_0: "redondear 0 = Num 0"
  by (simp add: redondear_def)

lemma redondear_num:
  assumes "pot2 e \<le> \<bar>x\<bar>" and "\<bar>x\<bar> < pot2 (e + 1)" and "q = max (e - 52) (- 1074)"
    and "rint (\<bar>x\<bar> / pot2 q) = m" and "of_int m * pot2 q < pot2 1024"
  shows "redondear x = Num (if 0 < x then of_int m * pot2 q else - (of_int m * pot2 q))"
proof -
  have x: "x \<noteq> 0" using assms(1) pot2_pos [of e] by auto
  then have "0 < \<bar>x\<bar>" by simp
  from ilog2_unique [OF this assms(1,2)] have e: "ilog2 \<bar>x\<bar> = e" .
  have r: "rint (\<bar>x\<bar> / pot2 (max (e - 52) (- 1074))) = m"
    using assms(3,4) by simp
  have s: "\<not> pot2 1024 \<le> of_int m * pot2 (max (e - 52) (- 1074))"
    using assms(3,5) by simp
  have "redondear x = Num (if 0 < x then of_int m * pot2 (max (e - 52) (- 1074))
                           else - (of_int m * pot2 (max (e - 52) (- 1074))))"
    unfolding redondear_def Let_def e r using x s by (simp only: if_False)
  then show ?thesis using assms(3) by simp
qed

lemma redondear_pos:
  assumes "pot2 e \<le> x" and "x < pot2 (e + 1)" and "q = max (e - 52) (- 1074)"
    and "\<bar>x / pot2 q - of_int m\<bar> < 1 / 2 \<or> (\<bar>x / pot2 q - of_int m\<bar> = 1 / 2 \<and> even m)"
    and "\<bar>m\<bar> \<le> 2 ^ 53" and "q \<le> 970" and "y = of_int m * pot2 q"
  shows "redondear x = Num y"
proof -
  have x: "0 < x" using assms(1) pot2_pos [of e] by simp
  then have ax: "\<bar>x\<bar> = x" by simp
  have "rint (x / pot2 q) = m" using assms(4) by (rule rint_eq)
  then have r: "rint (\<bar>x\<bar> / pot2 q) = m" by (simp only: ax)
  have lo: "pot2 e \<le> \<bar>x\<bar>" using assms(1) by (simp only: ax)
  have hi: "\<bar>x\<bar> < pot2 (e + 1)" using assms(2) by (simp only: ax)
  have "redondear x = Num (if 0 < x then of_int m * pot2 q else - (of_int m * pot2 q))"
    using lo hi assms(3) r bajo_1024 [OF assms(5,6)] by (rule redondear_num)
  then show ?thesis using x assms(7) by simp
qed

text \<open>Rounding keeps the sign.\<close>

lemma redondear_nonpos:
  assumes "x \<le> 0"
  shows "fle (redondear x) (Num 0)"
proof (cases "x = 0")
  case True
  then show ?thesis by (simp add: redondear_0)
next
  case False
  let ?q = "max (ilog2 \<bar>x\<bar> - 52) (- 1074)"
  have "0 \<le> \<bar>x\<bar> / pot2 ?q" using pot2_pos [of ?q] by simp
  then have "0 \<le> rint (\<bar>x\<bar> / pot2 ?q)" by (rule rint_nonneg)
  then have "0 \<le> of_int (rint (\<bar>x\<bar> / pot2 ?q)) * pot2 ?q"
    using pot2_pos [of ?q] by simp
  then show ?thesis using False assms by (simp add: redondear_def Let_def)
qed

text \<open>A value \<open>m * 2^q\<close> with \<open>|m| < 2^53\<close> and \<open>-1074 \<le> q \<le> 971\<close> is a double: it rounds to itself.\<close>

lemma redondear_exact:
  assumes "\<bar>m\<bar> < 2 ^ 53" and "- 1074 \<le> q" and "q \<le> 971"
  shows "redondear (of_int m * pot2 q) = Num (of_int m * pot2 q)"
proof (cases "m = 0")
  case True
  then show ?thesis by (simp add: redondear_0)
next
  case False
  let ?a = "\<bar>m\<bar>"
  let ?x = "of_int m * pot2 q :: rat"
  have a: "0 < ?a" using False by simp
  have ax: "\<bar>?x\<bar> = of_int ?a * pot2 q" using pot2_pos [of q] by (simp add: abs_mult)
  have bl: "1 \<le> bitlen ?a" "bitlen ?a \<le> 53"
    using a assms(1) bitlen_eq_zero_iff [of ?a] bitlen_nonneg [of ?a]
      bitlen_le_iff_power [of ?a 53] by auto
  let ?e = "bitlen ?a - 1 + q"
  have lo: "pot2 ?e \<le> \<bar>?x\<bar>"
  proof -
    have "2 ^ nat (bitlen ?a - 1) \<le> ?a" using bitlen_bounds [OF a] by simp
    then have "(of_int (2 ^ nat (bitlen ?a - 1)) :: rat) \<le> of_int ?a"
      by (simp only: of_int_le_iff)
    then have "pot2 (bitlen ?a - 1) \<le> of_int ?a"
      using bl by (simp add: pot2_def power_int_def)
    then show ?thesis unfolding ax pot2_add using pot2_pos [of q] by (simp add: mult_right_mono)
  qed
  have hi: "\<bar>?x\<bar> < pot2 (?e + 1)"
  proof -
    have "?a < 2 ^ nat (bitlen ?a)" using bitlen_bounds [OF a] by simp
    then have "(of_int ?a :: rat) < of_int (2 ^ nat (bitlen ?a))" by (simp only: of_int_less_iff)
    then have "of_int ?a < pot2 (bitlen ?a)"
      using bl by (simp add: pot2_def power_int_def)
    then have "of_int ?a * pot2 q < pot2 (bitlen ?a) * pot2 q"
      using pot2_pos [of q] by (simp add: mult_strict_right_mono)
    then show ?thesis unfolding ax by (simp add: pot2_add [symmetric])
  qed
  let ?q = "max (?e - 52) (- 1074)"
  have qq: "?q \<le> q" using bl assms(2) by simp
  have d: "pot2 q = of_int (2 ^ nat (q - ?q)) * pot2 ?q"
  proof -
    have "pot2 q = pot2 (q - ?q) * pot2 ?q" by (simp add: pot2_add [symmetric])
    also have "pot2 (q - ?q) = of_int (2 ^ nat (q - ?q))"
      using qq by (simp add: pot2_def power_int_def)
    finally show ?thesis .
  qed
  have quo: "\<bar>?x\<bar> / pot2 ?q = of_int (?a * 2 ^ nat (q - ?q))"
  proof -
    have "\<bar>?x\<bar> = of_int (?a * 2 ^ nat (q - ?q)) * pot2 ?q"
      unfolding ax by (subst d) simp
    then show ?thesis using pot2_pos [of ?q] by simp
  qed
  have r: "rint (\<bar>?x\<bar> / pot2 ?q) = ?a * 2 ^ nat (q - ?q)"
    unfolding quo by (rule rint_of_int)
  have y: "of_int (?a * 2 ^ nat (q - ?q)) * pot2 ?q = \<bar>?x\<bar>"
    using quo pot2_pos [of ?q] by (simp add: field_simps)
  have small: "of_int (?a * 2 ^ nat (q - ?q)) * pot2 ?q < pot2 1024"
  proof -
    have "(of_int ?a :: rat) < of_int (2 ^ 53)" using assms(1) by (simp only: of_int_less_iff)
    then have "(of_int ?a :: rat) < pot2 53" by (simp add: pot2_def)
    then have "of_int ?a * pot2 q < pot2 53 * pot2 q"
      using pot2_pos [of q] by (simp add: mult_strict_right_mono)
    also have "\<dots> = pot2 (53 + q)" by (simp add: pot2_add)
    also have "\<dots> \<le> pot2 1024" using assms(3) by (simp add: pot2_le)
    finally show ?thesis unfolding y ax .
  qed
  have "redondear ?x = Num (if 0 < ?x then of_int (?a * 2 ^ nat (q - ?q)) * pot2 ?q
                            else - (of_int (?a * 2 ^ nat (q - ?q)) * pot2 ?q))"
    using lo hi refl r small by (rule redondear_num)
  also have "\<dots> = Num ?x" unfolding y by (simp add: abs_if)
  finally show ?thesis .
qed

lemma redondear_rep:
  assumes "x = of_int m * pot2 q" and "\<bar>m\<bar> < 2 ^ 53" and "- 1074 \<le> q" and "q \<le> 971"
  shows "redondear x = Num x"
  unfolding assms(1) using assms(2,3,4) by (rule redondear_exact)

lemma es_doble_rep:
  assumes "x = of_int m * pot2 q" and "\<bar>m\<bar> < 2 ^ 53" and "- 1074 \<le> q" and "q \<le> 971"
  shows "es_doble x"
  unfolding es_doble_def using assms by (rule redondear_rep)

text \<open>Rounding does not go below 1 from a value of at least \<open>1 - 2^-54\<close>.\<close>

lemma redondear_ge_1:
  assumes "1 - 1 / 2 ^ 54 \<le> x"
  shows "fle (Num 1) (redondear x)"
proof (cases "1 \<le> x")
  case True
  then have x: "0 < x" by simp
  let ?e = "ilog2 \<bar>x\<bar>"
  let ?q = "max (?e - 52) (- 1074)"
  let ?y = "of_int (rint (\<bar>x\<bar> / pot2 ?q)) * pot2 ?q"
  have ax: "\<bar>x\<bar> = x" using x by simp
  have b: "pot2 ?e \<le> x" "x < pot2 (?e + 1)" using ilog2_bounds [OF x] ax by simp_all
  have "pot2 0 < pot2 (?e + 1)" using True b(2) by (simp add: pot2_def)
  then have e: "0 \<le> ?e" by (simp add: pot2_less)
  then have q: "?q = ?e - 52" by simp
  have "pot2 52 * pot2 ?q = pot2 ?e" unfolding q by (simp add: pot2_add [symmetric])
  then have "pot2 52 * pot2 ?q \<le> x" using b(1) by simp
  then have "pot2 52 \<le> \<bar>x\<bar> / pot2 ?q" using pot2_pos [of ?q] ax by (simp add: pos_le_divide_eq)
  then have "of_int (2 ^ 52) \<le> \<bar>x\<bar> / pot2 ?q" by (simp add: pot2_def)
  then have "2 ^ 52 \<le> rint (\<bar>x\<bar> / pot2 ?q)" by (rule rint_ge)
  then have "(of_int (2 ^ 52) :: rat) \<le> of_int (rint (\<bar>x\<bar> / pot2 ?q))"
    by (simp only: of_int_le_iff)
  then have "pot2 52 \<le> of_int (rint (\<bar>x\<bar> / pot2 ?q))" by (simp add: pot2_def)
  then have "pot2 52 * pot2 ?q \<le> ?y" using pot2_pos [of ?q] by (simp add: mult_right_mono)
  also have "pot2 52 * pot2 ?q = pot2 ?e" unfolding q by (simp add: pot2_add [symmetric])
  finally have "pot2 0 \<le> ?y" using e pot2_le [of 0 ?e] by simp
  then have y: "1 \<le> ?y" by (simp add: pot2_def)
  have "redondear x = (if pot2 1024 \<le> ?y then PInf else Num ?y)"
    using x by (simp add: redondear_def Let_def)
  then show ?thesis using y by simp
next
  case False
  then have lt: "x < 1" by simp
  have lo: "pot2 (- 1) \<le> \<bar>x\<bar>" using assms pot2_neg [of 1] by simp
  have hi: "\<bar>x\<bar> < pot2 (- 1 + 1)" using lt assms by (simp add: pot2_def)
  note p = pot2_m53
  have ax: "\<bar>x\<bar> = x" using assms by simp
  have r: "rint (\<bar>x\<bar> / pot2 (- 53)) = 2 ^ 53"
  proof (rule rint_even)
    show "of_int (2 ^ 53) - 1 / 2 \<le> \<bar>x\<bar> / pot2 (- 53)" using assms unfolding ax p by simp
    show "\<bar>x\<bar> / pot2 (- 53) \<le> of_int (2 ^ 53)" using lt unfolding ax p by simp
    show "even (2 ^ 53 :: int)" by simp
  qed
  have "of_int (2 ^ 53) * pot2 (- 53) = pot2 0" by (simp add: p) (simp add: pot2_def)
  then have s: "of_int (2 ^ 53) * pot2 (- 53) < pot2 1024" by (simp only: pot2_less)
  have "redondear x = Num (if 0 < x then of_int (2 ^ 53) * pot2 (- 53)
                           else - (of_int (2 ^ 53) * pot2 (- 53)))"
    using lo hi _ r s by (rule redondear_num) simp
  moreover have "0 < x" using assms by simp
  ultimately show ?thesis by (simp add: p)
qed

text \<open>Below 1, rounding loses at most \<open>2^-54\<close>.\<close>

lemma redondear_lower:
  assumes "0 \<le> x" and "x < 1"
  shows "\<exists>y. redondear x = Num y \<and> x - 1 / 2 ^ 54 \<le> y"
proof (cases "x = 0")
  case True
  then show ?thesis by (simp add: redondear_0)
next
  case False
  then have x: "0 < x" using assms(1) by simp
  let ?e = "ilog2 \<bar>x\<bar>"
  let ?q = "max (?e - 52) (- 1074)"
  let ?z = "\<bar>x\<bar> / pot2 ?q"
  let ?y = "of_int (rint ?z) * pot2 ?q"
  have ax: "\<bar>x\<bar> = x" using x by simp
  have b: "pot2 ?e \<le> x" "x < pot2 (?e + 1)" using ilog2_bounds [OF x] ax by simp_all
  have "pot2 ?e < pot2 0" using b(1) assms(2) by (simp add: pot2_def)
  then have e: "?e \<le> - 1" by (simp add: pot2_less)
  then have q: "?q \<le> - 53" by simp
  have pq: "pot2 ?q \<le> 1 / 2 ^ 53"
  proof -
    have "pot2 ?q \<le> pot2 (- 53)" using q by (simp only: pot2_le)
    then show ?thesis by (simp only: pot2_m53)
  qed
  have zq: "?z * pot2 ?q = x" using pot2_pos [of ?q] ax by simp
  have "(?z - 1 / 2) * pot2 ?q \<le> ?y"
    using rint_lower [of ?z] pot2_pos [of ?q] by (simp add: mult_right_mono)
  then have lo: "x - pot2 ?q / 2 \<le> ?y" using zq by (simp add: algebra_simps)
  have "?y \<le> (?z + 1 / 2) * pot2 ?q"
    using rint_upper [of ?z] pot2_pos [of ?q] by (simp add: mult_right_mono)
  then have up: "?y \<le> x + pot2 ?q / 2" using zq by (simp add: algebra_simps)
  have "pot2 ?q / 2 \<le> 1" using pq by simp
  then have "?y < 2" using up assms(2) by linarith
  also have "(2::rat) = pot2 1" by (simp add: pot2_def)
  also have "pot2 1 \<le> pot2 1024" by (simp add: pot2_le)
  finally have s: "\<not> pot2 1024 \<le> ?y" by simp
  have "redondear x = Num ?y" using x s by (simp add: redondear_def Let_def)
  moreover have "x - 1 / 2 ^ 54 \<le> ?y"
  proof -
    have "pot2 ?q / 2 \<le> 1 / 2 ^ 54" using pq by simp
    then show ?thesis using lo by linarith
  qed
  ultimately show ?thesis by blast
qed

subsection \<open>The solver on doubles\<close>

lemma fle_1_cases:
  assumes "fle (Num 1) t"
  shows "t = PInf \<or> (\<exists>y. t = Num y \<and> 1 \<le> y)"
  using assms by (cases t) simp_all

text \<open>
  For percentages that are not negative, a sum of 1 or more in exact arithmetic is a sum
  of 1 or more as the program adds it.
\<close>

lemma total_porcentual_ge_1:
  assumes "0 \<le> c" and "0 \<le> f" and "0 \<le> w" and "1 \<le> c + f + w"
  shows "fle (Num 1) (fadd (fadd (Num c) (Num f)) (Num w))"
proof (cases "1 \<le> c + f")
  case True
  then have "fle (Num 1) (redondear (c + f))" by (intro redondear_ge_1) simp
  from fle_1_cases [OF this] show ?thesis
  proof
    assume "redondear (c + f) = PInf"
    then show ?thesis by simp
  next
    assume "\<exists>y. redondear (c + f) = Num y \<and> 1 \<le> y"
    then obtain y where y: "redondear (c + f) = Num y" "1 \<le> y" by blast
    have "fle (Num 1) (redondear (y + w))" using y(2) assms(3) by (intro redondear_ge_1) simp
    then show ?thesis using y(1) by simp
  qed
next
  case False
  then have "c + f < 1" by simp
  moreover have "0 \<le> c + f" using assms(1,2) by simp
  ultimately obtain y where y: "redondear (c + f) = Num y" "c + f - 1 / 2 ^ 54 \<le> y"
    using redondear_lower by blast
  have "1 - 1 / 2 ^ 54 \<le> y + w" using y(2) assms(4) by simp
  then have "fle (Num 1) (redondear (y + w))" by (rule redondear_ge_1)
  then show ?thesis using y(1) by simp
qed

lemma denominador_nonpos:
  assumes "fle (Num 1) t"
  shows "fle (fsub (Num 1) t) (Num 0)"
  using fle_1_cases [OF assms] redondear_nonpos [of "1 - y" for y]
  by (auto simp add: fsub_def)

lemma solver_f64_invalid:
  assumes "fle (Num 1) (fadd (fadd (float_or0_f64 c) (float_or0_f64 f)) (float_or0_f64 w))"
  shows "calcular_precio_publicacion_ml_f64 n c f w k = Some (Num 0, Num 0, Num 0, Num 0, Num 0, True)"
  using denominador_nonpos [OF assms] by (simp add: calcular_precio_publicacion_ml_f64_def Let_def)

lemma fdiv_None: "fdiv a b = None \<Longrightarrow> b = Num 0"
  by (cases a; cases b) (simp_all split: if_splits)

lemma solver_f64_total: "\<exists>y. calcular_precio_publicacion_ml_f64 n c f w k = Some y"
proof -
  let ?d = "fsub (Num 1) (fadd (fadd (float_or0_f64 c) (float_or0_f64 f)) (float_or0_f64 w))"
  show ?thesis
  proof (cases "fle ?d (Num 0)")
    case True
    then have "calcular_precio_publicacion_ml_f64 n c f w k
                 = Some (Num 0, Num 0, Num 0, Num 0, Num 0, True)"
      by (simp add: calcular_precio_publicacion_ml_f64_def Let_def)
    then show ?thesis by blast
  next
    case False
    then have "?d \<noteq> Num 0" by auto
    then have "fdiv (fadd (float_or0_f64 n) (float_or0_f64 k)) ?d \<noteq> None"
      using fdiv_None by blast
    then show ?thesis using False
      by (auto simp add: calcular_precio_publicacion_ml_f64_def Let_def)
  qed
qed





















lemma round2_0: "round2 0 = 0"
  by (simp add: round2_def rint_def Let_def)


subsection \<open>The rows on doubles\<close>

lemma round2_f64_0: "round2_f64 (Num 0) = Num 0"
  by (simp add: round2_f64_def redondear_0 rint_def)

lemma todas_map:
  assumes "\<And>x. \<exists>y. f x = Some y"
  shows "todas (map f xs) = Some (map (\<lambda>x. the (f x)) xs)"
proof (induction xs)
  case Nil
  show ?case by simp
next
  case (Cons a xs)
  obtain y where "f a = Some y" using assms by blast
  then show ?case using Cons by simp
qed

lemma calcular_fila_f64_total: "\<exists>y. calcular_fila_f64 df r = Some y"
proof -
  obtain p c q w s d where "calculos_f64 df r = Some (p, c, q, w, s, d)"
    unfolding calculos_f64_def using solver_f64_total prod_cases6 by metis
  then show ?thesis by (simp add: calcular_fila_f64_def Let_def)
qed

lemma calcular_fila_f64_flags:
  "calcular_fila_f64 (df\<lparr>filas_f64 := xs\<rparr>) = calcular_fila_f64 df"
  by (rule ext) (simp add: calcular_fila_f64_def calculos_f64_def retenciones_pct_serie_f64_def
      notas_iniciales_f64_def)

lemma calcular_f64_map:
  "calcular_f64 (df\<lparr>filas_f64 := xs\<rparr>) = Some (map (\<lambda>r. the (calcular_fila_f64 df r)) xs)"
  using todas_map [of "calcular_fila_f64 df" xs, OF calcular_fila_f64_total]
  by (simp add: calcular_f64_def calcular_fila_f64_flags)

lemma calcular_fila_f64_invalid:
  assumes "fle (Num 1) (fadd (fadd (fillna0_f64 (fee_pct_f64 r))
                                   (fillna0_f64 (financing_pct_f64 r)))
                             (retenciones_pct_serie_f64 df r))"
  shows "calcular_fila_f64 df r
         = Some \<lparr> Notas_f64 = (if notas_iniciales_f64 df r = [] then mensaje
                               else notas_iniciales_f64 df r @ ''; '' @ mensaje),
                  Precio_final_f64 = Num 0, Cargo_por_vender_f64 = Num 0,
                  Recargo_financiacion_f64 = Num 0, Retenciones_ML_f64 = Num 0,
                  Recibis_f64 = Num 0, Recargo_fijo_ML_f64 = Num 0,
                  Recargo_pct_ML_f64 = round2_f64 (fmul (Num 0) (fillna0_f64 (fee_pct_f64 r))) \<rparr>"
proof -
  have "calculos_f64 df r = Some (Num 0, Num 0, Num 0, Num 0, Num 0, True)"
    unfolding calculos_f64_def by (rule solver_f64_invalid) (simp add: float_or0_f64_Some assms)
  then show ?thesis by (simp add: calcular_fila_f64_def Let_def round2_f64_0)
qed

text \<open>
  The operations of the solver, in their order, on the net target \<open>100.0\<close>, the commission
  \<open>1e16\<close>, the financing \<open>1.0\<close>, the withholding \<open>-1e16\<close> and the fixed charge \<open>5.0\<close>.
\<close>

lemma paso_b1: "fadd (Num 10000000000000000) (Num 1) = Num 10000000000000000"
  by (simp add: fsub_def, rule redondear_pos [where e = 53 and q = 1 and m = 5000000000000000], simp_all add: pot2_eval)

lemma paso_b2: "fadd (Num 10000000000000000) (Num (- 10000000000000000)) = Num 0"
  by (simp add: redondear_0)

lemma paso_b3: "fsub (Num 1) (Num 0) = Num 1"
  by (simp add: fsub_def, rule redondear_rep [where m = 1 and q = 0], simp_all add: pot2_eval)

lemma paso_b4: "fle (Num 1) (Num 0) = False"
  by simp

lemma paso_b5: "fadd (Num 100) (Num 5) = Num 105"
  by (simp add: fsub_def, rule redondear_rep [where m = 105 and q = 0], simp_all add: pot2_eval)

lemma paso_b6: "fdiv (Num 105) (Num 1) = Some (Num 105)"
  by (simp add: fsub_def, rule redondear_rep [where m = 105 and q = 0], simp_all add: pot2_eval)

lemma paso_b7: "fmul (Num 105) (Num 10000000000000000) = Num 1050000000000000000"
  by (simp add: fsub_def, rule redondear_rep [where m = 16021728515625 and q = 16], simp_all add: pot2_eval)

lemma paso_b8: "fadd (Num 1050000000000000000) (Num 5) = Num 1050000000000000000"
  by (simp add: fsub_def, rule redondear_pos [where e = 59 and q = 7 and m = 8203125000000000], simp_all add: pot2_eval)

lemma paso_b9: "fmul (Num 105) (Num 1) = Num 105"
  by (simp add: fsub_def, rule redondear_rep [where m = 105 and q = 0], simp_all add: pot2_eval)

lemma paso_b10: "fmul (Num 105) (Num (- 10000000000000000)) = Num (- 1050000000000000000)"
  by (simp add: fsub_def, rule redondear_rep [where m = "- 16021728515625" and q = 16], simp_all add: pot2_eval)

lemma paso_b11: "fadd (Num 1050000000000000000) (Num 105) = Num 1050000000000000128"
  by (simp add: fsub_def, rule redondear_pos [where e = 59 and q = 7 and m = 8203125000000001], simp_all add: pot2_eval)

lemma paso_b12: "fadd (Num 1050000000000000128) (Num (- 1050000000000000000)) = Num 128"
  by (simp add: fsub_def, rule redondear_rep [where m = 128 and q = 0], simp_all add: pot2_eval)

lemma paso_b13: "fsub (Num 105) (Num 128) = Num (- 23)"
  by (simp add: fsub_def, rule redondear_rep [where m = "- 23" and q = 0], simp_all add: pot2_eval)

lemmas pasos_b = paso_b1 paso_b2 paso_b3 paso_b4 paso_b5 paso_b6 paso_b7 paso_b8 paso_b9 paso_b10 paso_b11 paso_b12 paso_b13

text \<open>
  C2. Solver infeasibility, in the double arithmetic of the program: when the sum
  of the commission, financing and withholding percentages as the program adds them is 1
  or more, the solver returns the failure indicator and \<open>0.0\<close> for its five monetary
  outputs; the sum the program adds is 1 or more whenever the percentages are not negative
  and their exact sum is 1 or more. In the pricing computation such a row has these five
  outputs and the fixed charge at \<open>0.0\<close>, and the flag appended to its notes (after \<open>; \<close>
  when the notes are not empty); the computation returns a result for every row, the rows
  before and after that row getting the results they get without it.
\<close>

theorem solver_infeasible:
  "(0 \<le> c \<and> 0 \<le> f \<and> 0 \<le> w \<and> 1 \<le> c + f + w \<longrightarrow>
      fle (Num 1) (fadd (fadd (Num c) (Num f)) (Num w)))
   \<and> (fle (Num 1) (fadd (fadd (float_or0_f64 pc) (float_or0_f64 pf)) (float_or0_f64 pw)) \<longrightarrow>
        calcular_precio_publicacion_ml_f64 n pc pf pw k
          = Some (Num 0, Num 0, Num 0, Num 0, Num 0, True))
   \<and> (fle (Num 1) (fadd (fadd (fillna0_f64 (fee_pct_f64 r)) (fillna0_f64 (financing_pct_f64 r)))
                       (retenciones_pct_serie_f64 df r)) \<longrightarrow>
        (\<exists>x. calcular_fila_f64 df r = Some x
            \<and> Precio_final_f64 x = Num 0
            \<and> Cargo_por_vender_f64 x = Num 0
            \<and> Recargo_financiacion_f64 x = Num 0
            \<and> Retenciones_ML_f64 x = Num 0
            \<and> Recibis_f64 x = Num 0
            \<and> Recargo_fijo_ML_f64 x = Num 0
            \<and> Notas_f64 x = (if notas_iniciales_f64 df r = [] then mensaje
                             else notas_iniciales_f64 df r @ ''; '' @ mensaje)))
   \<and> (\<exists>antes x despues.
          calcular_f64 (df\<lparr>filas_f64 := xs\<rparr>) = Some antes
        \<and> calcular_fila_f64 df r = Some x
        \<and> calcular_f64 (df\<lparr>filas_f64 := ys\<rparr>) = Some despues
        \<and> calcular_f64 (df\<lparr>filas_f64 := xs @ r # ys\<rparr>) = Some (antes @ x # despues))"
proof (intro conjI impI)
  assume "0 \<le> c \<and> 0 \<le> f \<and> 0 \<le> w \<and> 1 \<le> c + f + w"
  then show "fle (Num 1) (fadd (fadd (Num c) (Num f)) (Num w))"
    by (intro total_porcentual_ge_1) simp_all
next
  assume "fle (Num 1) (fadd (fadd (float_or0_f64 pc) (float_or0_f64 pf)) (float_or0_f64 pw))"
  then show "calcular_precio_publicacion_ml_f64 n pc pf pw k
          = Some (Num 0, Num 0, Num 0, Num 0, Num 0, True)"
    by (rule solver_f64_invalid)
next
  assume "fle (Num 1) (fadd (fadd (fillna0_f64 (fee_pct_f64 r)) (fillna0_f64 (financing_pct_f64 r)))
                       (retenciones_pct_serie_f64 df r))"
  from calcular_fila_f64_invalid [OF this]
  show "\<exists>x. calcular_fila_f64 df r = Some x
            \<and> Precio_final_f64 x = Num 0
            \<and> Cargo_por_vender_f64 x = Num 0
            \<and> Recargo_financiacion_f64 x = Num 0
            \<and> Retenciones_ML_f64 x = Num 0
            \<and> Recibis_f64 x = Num 0
            \<and> Recargo_fijo_ML_f64 x = Num 0
            \<and> Notas_f64 x = (if notas_iniciales_f64 df r = [] then mensaje
                             else notas_iniciales_f64 df r @ ''; '' @ mensaje)"
    by simp
next
  obtain x where x: "calcular_fila_f64 df r = Some x"
    using calcular_fila_f64_total by blast
  have "calcular_f64 (df\<lparr>filas_f64 := xs @ r # ys\<rparr>)
        = Some (map (\<lambda>r. the (calcular_fila_f64 df r)) xs @ x
                  # map (\<lambda>r. the (calcular_fila_f64 df r)) ys)"
    by (simp add: calcular_f64_map x)
  then show "\<exists>antes x despues.
          calcular_f64 (df\<lparr>filas_f64 := xs\<rparr>) = Some antes
        \<and> calcular_fila_f64 df r = Some x
        \<and> calcular_f64 (df\<lparr>filas_f64 := ys\<rparr>) = Some despues
        \<and> calcular_f64 (df\<lparr>filas_f64 := xs @ r # ys\<rparr>) = Some (antes @ x # despues)"
    using x by (simp add: calcular_f64_map)
qed

text \<open>
  With a negative percentage the exact sum does not decide: the commission \<open>1e16\<close>, the
  financing \<open>1.0\<close> and the withholding \<open>-1e16\<close> add up to exactly 1, but the program adds
  \<open>1e16 + 1.0\<close> to \<open>1e16\<close>, finds the sum \<open>0.0\<close> and returns the price \<open>105.0\<close> without the
  failure indicator.
\<close>

theorem solver_infeasible_counterexample:
  "(1::rat) \<le> 10000000000000000 + 1 + (- 10000000000000000)
   \<and> es_doble 10000000000000000 \<and> es_doble 1 \<and> es_doble (- 10000000000000000)
   \<and> calcular_precio_publicacion_ml_f64 (Some (Num 100)) (Some (Num 10000000000000000))
         (Some (Num 1)) (Some (Num (- 10000000000000000))) (Some (Num 5))
       = Some (Num 105, Num 1050000000000000000, Num 105, Num (- 1050000000000000000),
               Num (- 23), False)"
proof -
  have e1: "es_doble 10000000000000000"
    by (rule es_doble_rep [where m = 152587890625 and q = 16], simp_all add: pot2_eval)
  have e2: "es_doble 1"
    by (rule es_doble_rep [where m = 1 and q = 0], simp_all add: pot2_eval)
  have e3: "es_doble (- 10000000000000000)"
    by (rule es_doble_rep [where m = "- 152587890625" and q = 16], simp_all add: pot2_eval)
  have s: "calcular_precio_publicacion_ml_f64 (Some (Num 100)) (Some (Num 10000000000000000))
         (Some (Num 1)) (Some (Num (- 10000000000000000))) (Some (Num 5))
       = Some (Num 105, Num 1050000000000000000, Num 105, Num (- 1050000000000000000),
               Num (- 23), False)"
    unfolding calcular_precio_publicacion_ml_f64_def Let_def float_or0_f64_Some
    by (simp only: pasos_b if_False option.case)
  show ?thesis using e1 e2 e3 s by simp
qed

lemma redondear_ejemplo: "redondear (3 / 4) = Num (3 / 4)" "redondear 1 = Num 1"
proof -
  show "redondear (3 / 4) = Num (3 / 4)"
    by (rule redondear_rep [where m = 3 and q = "- 2"], simp_all add: pot2_eval)
  show "redondear 1 = Num 1"
    by (rule redondear_rep [where m = 1 and q = 0], simp_all add: pot2_eval)
qed

theorem solver_infeasible_witness:
  "fle (Num 1) (fadd (fadd (Num (1 / 2)) (Num (1 / 4))) (Num (1 / 4)))
   \<and> calcular_precio_publicacion_ml_f64 (Some (Num 100)) (Some (Num (1 / 2))) (Some (Num (1 / 4)))
         (Some (Num (1 / 4))) (Some (Num 5))
       = Some (Num 0, Num 0, Num 0, Num 0, Num 0, True)
   \<and> (\<exists>x. calcular_fila_f64 (frame_f64_de []) fila_inviable_f64 = Some x
          \<and> Precio_final_f64 x = Num 0
          \<and> Cargo_por_vender_f64 x = Num 0
          \<and> Recargo_financiacion_f64 x = Num 0
          \<and> Retenciones_ML_f64 x = Num 0
          \<and> Recibis_f64 x = Num 0
          \<and> Recargo_fijo_ML_f64 x = Num 0
          \<and> Notas_f64 x = ''Precio Tarifa faltante; '' @ mensaje)"
proof -
  have a: "fle (Num 1) (fadd (fadd (Num (1 / 2)) (Num (1 / 4))) (Num (1 / 4)))"
    by (simp add: redondear_ejemplo)
  have n: "notas_iniciales_f64 (frame_f64_de []) fila_inviable_f64 = ''Precio Tarifa faltante''"
    by (simp add: notas_iniciales_f64_def frame_f64_de_def fila_inviable_f64_def fillna_str_def)
  have p: "fillna0_f64 (fee_pct_f64 fila_inviable_f64) = Num (1 / 2)"
    "fillna0_f64 (financing_pct_f64 fila_inviable_f64) = Num (1 / 4)"
    "retenciones_pct_serie_f64 (frame_f64_de []) fila_inviable_f64 = Num (1 / 4)"
    by (simp_all add: fillna0_f64_def fila_inviable_f64_def retenciones_pct_serie_f64_def
        frame_f64_de_def)
  from solver_infeasible [where c = "1 / 2" and f = "1 / 4" and w = "1 / 4"
      and pc = "Some (Num (1 / 2))" and pf = "Some (Num (1 / 4))" and pw = "Some (Num (1 / 4))"
      and n = "Some (Num 100)" and k = "Some (Num 5)" and r = fila_inviable_f64
      and df = "frame_f64_de []" and xs = "[]" and ys = "[]"]
  show ?thesis using a by (simp add: n p float_or0_f64_Some)
qed

lemma startswith_fijo_not_porcentaje:
  "startswith s (codigos ''fijo'') \<Longrightarrow> \<not> startswith s (codigos ''porcentaje'')"
  by (cases s) (simp_all add: startswith_def codigos_def)

lemma recargo_envio_no_aplica: "recargo_envio t v False base = 0"
  by (simp add: recargo_envio_def Let_def)

lemma recargo_envio_fijo:
  assumes "startswith (py_lower t) (codigos ''fijo'')"
  shows "recargo_envio (Some t) (Numero m) True base = m"
  using assms startswith_fijo_not_porcentaje [OF assms]
  by (simp add: recargo_envio_def Let_def truthy_def float_valor_def)

lemma Recargo_envio_calcular_fila:
  "Recargo_envio (calcular_fila df i t v r) = round2 (envio df i t v r)"
  by (simp add: calcular_fila_def Let_def split: prod.splits)

text \<open>
  C7. Shipping-surcharge eligibility: whatever the mode and the magnitude, the surcharge
  of a row is 0 when the frame has no shipping-method column or the normalized text of the
  row is not one of the two eligible labels; a frame without the column has surcharge 0
  in every row. For an eligible row, a mode that starts with \<open>fijo\<close> (in any case of
  letters) and a numeric magnitude give the magnitude itself as the surcharge, which the
  result reports rounded to two decimals.
\<close>

theorem shipping_surcharge_eligibility:
  "((\<not> col_SHIPPING_METHOD df
      \<or> normalizar_estado_envio (fillna_str (SHIPPING_METHOD r)) \<notin> set estados_con_recargo) \<longrightarrow>
       envio df i t v r = 0 \<and> Recargo_envio (calcular_fila df i t v r) = 0)
   \<and> (\<not> col_SHIPPING_METHOD df \<longrightarrow> (\<forall>x \<in> set (calcular df b i t v). Recargo_envio x = 0))
   \<and> (col_SHIPPING_METHOD df
       \<and> normalizar_estado_envio (fillna_str (SHIPPING_METHOD r)) \<in> set estados_con_recargo
       \<and> startswith (py_lower tipo) (codigos ''fijo'') \<longrightarrow>
         envio df i (Some tipo) (Numero m) r = m
         \<and> Recargo_envio (calcular_fila df i (Some tipo) (Numero m) r) = round2 m)"
proof (intro conjI impI)
  assume h: "\<not> col_SHIPPING_METHOD df
      \<or> normalizar_estado_envio (fillna_str (SHIPPING_METHOD r)) \<notin> set estados_con_recargo"
  then have na: "\<not> aplica_envio df r" by (auto simp: aplica_envio_def)
  then show e: "envio df i t v r = 0" by (simp add: envio_def recargo_envio_no_aplica)
  show "Recargo_envio (calcular_fila df i t v r) = 0"
    by (simp add: Recargo_envio_calcular_fila e round2_0)
next
  assume h: "\<not> col_SHIPPING_METHOD df"
  show "\<forall>x \<in> set (calcular df b i t v). Recargo_envio x = 0"
  proof
    fix x assume "x \<in> set (calcular df b i t v)"
    then obtain r' where x: "x = calcular_fila df i t v r'" by (auto simp: calcular_def)
    have "envio df i t v r' = 0"
      using h by (simp add: envio_def aplica_envio_def recargo_envio_no_aplica)
    then show "Recargo_envio x = 0" by (simp add: x Recargo_envio_calcular_fila round2_0)
  qed
next
  assume h: "col_SHIPPING_METHOD df
       \<and> normalizar_estado_envio (fillna_str (SHIPPING_METHOD r)) \<in> set estados_con_recargo
       \<and> startswith (py_lower tipo) (codigos ''fijo'')"
  then have ap: "aplica_envio df r" by (simp add: aplica_envio_def)
  from h have st: "startswith (py_lower tipo) (codigos ''fijo'')" by simp
  show e: "envio df i (Some tipo) (Numero m) r = m"
    by (simp add: envio_def ap recargo_envio_fijo [OF st])
  show "Recargo_envio (calcular_fila df i (Some tipo) (Numero m) r) = round2 m"
    by (simp add: Recargo_envio_calcular_fila e)
qed

lemmas texto_defs = normalizar_estado_envio_def normalize_NFKD_def nfkd_char_def nfkd_tabla_def
  combining_def strip_cp_def es_espacio_cp_def lower_cp_def minuscula_cp_def codigos_def

lemma normalizar_por_mi_cuenta:
  "normalizar_estado_envio por_mi_cuenta = codigos ''mercado envios por mi cuenta''"
  by (simp add: texto_defs por_mi_cuenta_def)

lemma normalizar_clasico:
  "normalizar_estado_envio clasico = codigos ''mercado envios clasico''"
  by (simp add: texto_defs clasico_def)

lemma fijo_pesos: "startswith (py_lower ''Fijo ($)'') (codigos ''fijo'')"
  by (simp add: startswith_def py_lower_def lower_cp_def minuscula_cp_def codigos_def)

lemma round2_150: "round2 150 = 150"
  by (simp add: round2_def rint_def Let_def)

theorem shipping_surcharge_eligibility_witness:
  "Recargo_envio (calcular_fila (frame_de True []) False (Some ''Fijo ($)'') (Numero 150)
       (fila_led (Some por_mi_cuenta))) = 150
   \<and> Recargo_envio (calcular_fila (frame_de True []) False (Some ''Fijo ($)'') (Numero 150)
       (fila_led (Some clasico))) = 0
   \<and> list_all (\<lambda>x. Recargo_envio x = 0)
       (calcular (frame_de False [fila_led (Some por_mi_cuenta), fila_led (Some clasico)])
          ''tarifa'' False (Some ''Fijo ($)'') (Numero 150))"
proof -
  have a: "col_SHIPPING_METHOD (frame_de True [])"
    "\<not> col_SHIPPING_METHOD (frame_de False [fila_led (Some por_mi_cuenta), fila_led (Some clasico)])"
    by (simp_all add: frame_de_def)
  have b: "normalizar_estado_envio (fillna_str (SHIPPING_METHOD (fila_led (Some por_mi_cuenta))))
             \<in> set estados_con_recargo"
    by (simp add: fila_led_def fillna_str_def normalizar_por_mi_cuenta estados_con_recargo_def)
  have c: "normalizar_estado_envio (fillna_str (SHIPPING_METHOD (fila_led (Some clasico))))
             \<notin> set estados_con_recargo"
    by (simp add: fila_led_def fillna_str_def normalizar_clasico estados_con_recargo_def
        codigos_def)
  note t1 = shipping_surcharge_eligibility [where df = "frame_de True []"
      and r = "fila_led (Some por_mi_cuenta)" and tipo = "''Fijo ($)''" and m = 150 and i = False]
  note t2 = shipping_surcharge_eligibility [where df = "frame_de True []"
      and r = "fila_led (Some clasico)" and t = "Some ''Fijo ($)''" and v = "Numero 150"
      and i = False]
  note t3 = shipping_surcharge_eligibility [where
      df = "frame_de False [fila_led (Some por_mi_cuenta), fila_led (Some clasico)]"
      and b = "''tarifa''" and t = "Some ''Fijo ($)''" and v = "Numero 150" and i = False]
  have 1: "Recargo_envio (calcular_fila (frame_de True []) False (Some ''Fijo ($)'') (Numero 150)
       (fila_led (Some por_mi_cuenta))) = 150"
    using t1 a(1) b fijo_pesos by (simp add: round2_150)
  have 2: "Recargo_envio (calcular_fila (frame_de True []) False (Some ''Fijo ($)'') (Numero 150)
       (fila_led (Some clasico))) = 0"
    using t2 c by blast
  have 3: "list_all (\<lambda>x. Recargo_envio x = 0)
       (calcular (frame_de False [fila_led (Some por_mi_cuenta), fila_led (Some clasico)])
          ''tarifa'' False (Some ''Fijo ($)'') (Numero 150))"
    using t3 a(2) by (simp add: list_all_iff)
  from 1 2 3 show ?thesis by blast
qed

text \<open>
  C8. The argument \<open>base_financiacion\<close> has no effect: the pricing computation gives the
  same rows, equal in every field, for \<open>'tarifa'\<close> and for \<open>'tarifa_mas_ml'\<close> (and for any
  two values of the argument), whatever the frame and the other options.
\<close>

theorem base_financiacion_no_effect:
  "calcular df ''tarifa'' i t v = calcular df ''tarifa_mas_ml'' i t v
   \<and> calcular df b1 i t v = calcular df b2 i t v"
  by (simp add: calcular_def)


lemma notas_flags_cases:
  "notas_flags r =
     (if Codigo_Neored r = None then
        (if Precio_Tarifa r = None \<or> Precio_Tarifa r = Some 0 then
           (if Cantidad_a_mano r = None
            then ''SKU no encontrado en Odoo; Precio Tarifa faltante; Stock faltante''
            else ''SKU no encontrado en Odoo; Precio Tarifa faltante'')
         else (if Cantidad_a_mano r = None then ''SKU no encontrado en Odoo; Stock faltante''
               else ''SKU no encontrado en Odoo''))
      else
        (if Precio_Tarifa r = None \<or> Precio_Tarifa r = Some 0 then
           (if Cantidad_a_mano r = None then ''Precio Tarifa faltante; Stock faltante''
            else ''Precio Tarifa faltante'')
         else (if Cantidad_a_mano r = None then ''Stock faltante'' else [])))"
  by (simp add: notas_flags_def strip_chars_def Let_def)

lemma fila_unida_sin_match:
  "Codigo_Neored (fila_unida a b p) = None \<Longrightarrow>
   Precio_Tarifa (fila_unida a b p) = None \<and> Cantidad_a_mano (fila_unida a b p) = None"
  by (cases p) (auto simp: fila_unida_def split: option.splits)

lemma filas_unir_y_validar:
  "r \<in> set (filas (unir_y_validar df_ml df_odoo)) \<Longrightarrow>
   \<exists>p. r = (fila_unida (col_retenciones_pct_ml df_ml) (col_retenciones_pct_odoo df_odoo) p)
            \<lparr> Notas_Flags := Some (notas_flags
                 (fila_unida (col_retenciones_pct_ml df_ml) (col_retenciones_pct_odoo df_odoo) p)) \<rparr>"
  by (auto simp: unir_y_validar_def)

text \<open>
  C3. Notes accumulation: after the left join, a listing row with no catalog
  match gives one joined row, whose notes are exactly
  \<open>SKU no encontrado en Odoo; Precio Tarifa faltante; Stock faltante\<close>: its catalog cells
  are all missing, the on-hand quantity among them. In every joined row the flags stand in
  the fixed order of the checks (no match; tariff missing or zero; stock missing), joined
  by \<open>; \<close> with no separator at either end.
\<close>

theorem notes_accumulation:
  "(filter (\<lambda>c. Codigo_Neored_odoo c = SKU_ml l) (filas_odoo df_odoo) = [] \<longrightarrow>
      map Notas_Flags (filas (unir_y_validar (df_ml\<lparr>filas_ml := [l]\<rparr>) df_odoo))
        = [Some ''SKU no encontrado en Odoo; Precio Tarifa faltante; Stock faltante''])
   \<and> (\<forall>r \<in> set (filas (unir_y_validar df_ml df_odoo)).
        Notas_Flags r =
          Some (if Codigo_Neored r = None
                then ''SKU no encontrado en Odoo; Precio Tarifa faltante; Stock faltante''
                else if (Precio_Tarifa r = None \<or> Precio_Tarifa r = Some 0)
                        \<and> Cantidad_a_mano r = None
                then ''Precio Tarifa faltante; Stock faltante''
                else if Precio_Tarifa r = None \<or> Precio_Tarifa r = Some 0
                then ''Precio Tarifa faltante''
                else if Cantidad_a_mano r = None then ''Stock faltante''
                else []))"
proof (intro conjI impI ballI)
  assume "filter (\<lambda>c. Codigo_Neored_odoo c = SKU_ml l) (filas_odoo df_odoo) = []"
  then have m: "merge_left (df_ml\<lparr>filas_ml := [l]\<rparr>) df_odoo = [(l, None)]"
    by (simp add: merge_left_def)
  show "map Notas_Flags (filas (unir_y_validar (df_ml\<lparr>filas_ml := [l]\<rparr>) df_odoo))
        = [Some ''SKU no encontrado en Odoo; Precio Tarifa faltante; Stock faltante'']"
    by (simp add: unir_y_validar_def m notas_flags_cases) (simp add: fila_unida_def)
next
  fix r assume "r \<in> set (filas (unir_y_validar df_ml df_odoo))"
  from filas_unir_y_validar [OF this] obtain p where
    r: "r = (fila_unida (col_retenciones_pct_ml df_ml) (col_retenciones_pct_odoo df_odoo) p)
            \<lparr> Notas_Flags := Some (notas_flags
                 (fila_unida (col_retenciones_pct_ml df_ml) (col_retenciones_pct_odoo df_odoo) p)) \<rparr>"
    by blast
  show "Notas_Flags r =
          Some (if Codigo_Neored r = None
                then ''SKU no encontrado en Odoo; Precio Tarifa faltante; Stock faltante''
                else if (Precio_Tarifa r = None \<or> Precio_Tarifa r = Some 0)
                        \<and> Cantidad_a_mano r = None
                then ''Precio Tarifa faltante; Stock faltante''
                else if Precio_Tarifa r = None \<or> Precio_Tarifa r = Some 0
                then ''Precio Tarifa faltante''
                else if Cantidad_a_mano r = None then ''Stock faltante''
                else [])"
    using fila_unida_sin_match [of "col_retenciones_pct_ml df_ml" "col_retenciones_pct_odoo df_odoo" p]
    by (auto simp: r notas_flags_cases)
qed

theorem notes_accumulation_counterexample:
  "map Notas_Flags (filas (unir_y_validar ml_ejemplo odoo_ejemplo))
     = [Some [], Some ''SKU no encontrado en Odoo; Precio Tarifa faltante; Stock faltante'']
   \<and> map Notas_Flags (filas (unir_y_validar ml_ejemplo odoo_ejemplo)) ! 1
       \<noteq> Some ''SKU no encontrado en Odoo; Precio Tarifa faltante''"
  by (simp add: unir_y_validar_def merge_left_def ml_ejemplo_def odoo_ejemplo_def
      notas_flags_cases fila_unida_def)

theorem notes_accumulation_witness:
  "map Notas_Flags
     (filas (unir_y_validar (ml_ejemplo\<lparr>filas_ml := [filas_ml ml_ejemplo ! 1]\<rparr>) odoo_ejemplo))
     = [Some ''SKU no encontrado en Odoo; Precio Tarifa faltante; Stock faltante'']
   \<and> list_all (\<lambda>r. Notas_Flags r
                     = Some (if Codigo_Neored r = None
                             then ''SKU no encontrado en Odoo; Precio Tarifa faltante; Stock faltante''
                             else []))
       (filas (unir_y_validar ml_ejemplo odoo_ejemplo))"
proof -
  have a: "filter (\<lambda>c. Codigo_Neored_odoo c = SKU_ml (filas_ml ml_ejemplo ! 1))
             (filas_odoo odoo_ejemplo) = []"
    by (simp add: ml_ejemplo_def odoo_ejemplo_def)
  note t = notes_accumulation [where l = "filas_ml ml_ejemplo ! 1" and df_odoo = odoo_ejemplo
      and df_ml = ml_ejemplo]
  have 1: "map Notas_Flags
     (filas (unir_y_validar (ml_ejemplo\<lparr>filas_ml := [filas_ml ml_ejemplo ! 1]\<rparr>) odoo_ejemplo))
     = [Some ''SKU no encontrado en Odoo; Precio Tarifa faltante; Stock faltante'']"
    using t a by blast
  have f: "filas (unir_y_validar ml_ejemplo odoo_ejemplo)
            = map (\<lambda>p. (fila_unida False False p)\<lparr>Notas_Flags := Some (notas_flags (fila_unida False False p))\<rparr>)
                [(filas_ml ml_ejemplo ! 0, Some (filas_odoo odoo_ejemplo ! 0)),
                 (filas_ml ml_ejemplo ! 1, None)]"
    by (simp add: unir_y_validar_def merge_left_def ml_ejemplo_def odoo_ejemplo_def)
  have 2: "list_all (\<lambda>r. Notas_Flags r
                     = Some (if Codigo_Neored r = None
                             then ''SKU no encontrado en Odoo; Precio Tarifa faltante; Stock faltante''
                             else []))
       (filas (unir_y_validar ml_ejemplo odoo_ejemplo))"
    unfolding f by (simp add: notas_flags_cases fila_unida_def ml_ejemplo_def odoo_ejemplo_def)
  from 1 2 show ?thesis by blast
qed

lemmas float_defs = py_float_def float_body_def float_strip_def float_espacio_def numero_def exponente_def
  is_digit_def digit_val_def digits_val_def pot10_def minuscula_ascii_def codigos_def Let_def

lemmas strip_defs = py_strip_def es_espacio_def es_espacio_cp_def

lemma filter_dropWhile_absorb:
  "filter (\<lambda>c. Q c \<and> \<not> P c) (dropWhile P xs) = filter (\<lambda>c. Q c \<and> \<not> P c) xs"
  by (induction xs) auto

lemma filter_py_strip:
  "filter (\<lambda>c. Q c \<and> \<not> es_espacio c) (py_strip t) = filter (\<lambda>c. Q c \<and> \<not> es_espacio c) t"
proof -
  let ?Q = "\<lambda>c. Q c \<and> \<not> es_espacio c"
  have "filter ?Q (py_strip t) = rev (filter ?Q (dropWhile es_espacio (rev (dropWhile es_espacio t))))"
    by (simp add: py_strip_def rev_filter)
  also have "\<dots> = rev (filter ?Q (rev (dropWhile es_espacio t)))"
    by (simp only: filter_dropWhile_absorb)
  also have "\<dots> = filter ?Q (dropWhile es_espacio t)"
    by (simp add: rev_filter)
  also have "\<dots> = filter ?Q t"
    by (simp only: filter_dropWhile_absorb)
  finally show ?thesis .
qed

lemma py_float_Nil: "py_float [] = None"
  by (simp add: py_float_def float_strip_def)

lemma filter_espacio_Nil:
  assumes "py_strip t = []"
  shows "filter (\<lambda>c. Q c \<and> \<not> es_espacio c) t = []"
proof -
  have "filter (\<lambda>c. Q c \<and> \<not> es_espacio c) (py_strip t) = []" by (simp add: assms)
  then show ?thesis by (simp only: filter_py_strip)
qed

lemma texto_pct_strip: "texto_pct (py_strip t) = texto_pct t"
  by (simp add: texto_pct_def filter_py_strip)

lemma parse_pct_Some:
  "parse_pct (Some t) =
     (case py_float (texto_pct t) of
        Some v \<Rightarrow> if mayor_que_1 v then entre_100 v else v
      | None \<Rightarrow> Num 0)"
proof (cases "py_strip t = []")
  case True
  then have "texto_pct t = []"
    by (simp add: texto_pct_def filter_espacio_Nil replace_def)
  then show ?thesis by (simp add: parse_pct_def True py_float_Nil)
next
  case False
  then show ?thesis by (simp add: parse_pct_def texto_pct_strip)
qed

text \<open>
  C6. Percentage normalization: \<open>parse_pct\<close> drops every \<open>%\<close> and blank of the text and
  turns each comma into a point; when \<open>float\<close> rejects what is left (the empty text
  included) or the cell is missing, the result is 0; a parsed value above 1 is divided by
  100, a value of at most 1 is returned as it is (an infinity or NaN, which \<open>float\<close> also
  reads, is returned unchanged). In particular \<open>14.50%\<close> gives 0.145, \<open>0.04\<close> gives 0.04
  and \<open>4\<close> gives 0.04.
\<close>

theorem percentage_normalization:
  "parse_pct None = Num 0
   \<and> (py_float (replace (CHR '','') ''.'' (filter (\<lambda>c. \<not> (c = CHR ''%'' \<or> es_espacio c)) t)) = None
        \<longrightarrow> parse_pct (Some t) = Num 0)
   \<and> (py_float (replace (CHR '','') ''.'' (filter (\<lambda>c. \<not> (c = CHR ''%'' \<or> es_espacio c)) t))
          = Some (Num x)
        \<longrightarrow> parse_pct (Some t) = Num (if 1 < x then x / 100 else x))
   \<and> (py_float (replace (CHR '','') ''.'' (filter (\<lambda>c. \<not> (c = CHR ''%'' \<or> es_espacio c)) t))
          = Some v \<and> v \<in> set [PInf, NInf, NaN]
        \<longrightarrow> parse_pct (Some t) = v)
   \<and> parse_pct (Some ''14.50%'') = Num (145 / 1000)
   \<and> parse_pct (Some ''0.04'') = Num (4 / 100)
   \<and> parse_pct (Some ''4'') = Num (4 / 100)"
proof (intro conjI impI)
  show "parse_pct None = Num 0" by (simp add: parse_pct_def)
next
  assume "py_float (replace (CHR '','') ''.'' (filter (\<lambda>c. \<not> (c = CHR ''%'' \<or> es_espacio c)) t)) = None"
  then show "parse_pct (Some t) = Num 0"
    by (simp add: parse_pct_Some texto_pct_def)
next
  assume "py_float (replace (CHR '','') ''.'' (filter (\<lambda>c. \<not> (c = CHR ''%'' \<or> es_espacio c)) t))
          = Some (Num x)"
  then show "parse_pct (Some t) = Num (if 1 < x then x / 100 else x)"
    by (simp add: parse_pct_Some texto_pct_def mayor_que_1_def entre_100_def)
next
  assume "py_float (replace (CHR '','') ''.'' (filter (\<lambda>c. \<not> (c = CHR ''%'' \<or> es_espacio c)) t))
          = Some v \<and> v \<in> set [PInf, NInf, NaN]"
  then show "parse_pct (Some t) = v"
    by (auto simp: parse_pct_Some texto_pct_def mayor_que_1_def entre_100_def)
next
  show "parse_pct (Some ''14.50%'') = Num (145 / 1000)"
    by (simp add: parse_pct_Some texto_pct_def replace_def strip_defs float_defs
        mayor_que_1_def entre_100_def)
  show "parse_pct (Some ''0.04'') = Num (4 / 100)"
    by (simp add: parse_pct_Some texto_pct_def replace_def strip_defs float_defs
        mayor_que_1_def entre_100_def)
  show "parse_pct (Some ''4'') = Num (4 / 100)"
    by (simp add: parse_pct_Some texto_pct_def replace_def strip_defs float_defs
        mayor_que_1_def entre_100_def)
qed

lemma float_14: "py_float ''14'' = Some (Num 14)"
  by (simp add: float_defs)

lemma float_abc: "py_float ''abc'' = None"
  by (simp add: float_defs)

lemma float_inf: "py_float ''inf'' = Some PInf"
  by (simp add: float_defs)

theorem percentage_normalization_witness:
  "parse_pct (Some ''abc %'') = Num 0
   \<and> parse_pct (Some '' 14 %'') = Num (14 / 100)
   \<and> parse_pct (Some ''inf'') = PInf"
proof -
  have 1: "parse_pct (Some ''abc %'') = Num 0"
    using percentage_normalization [where t = "''abc %''"]
    by (simp add: replace_def strip_defs float_abc)
  have 2: "parse_pct (Some '' 14 %'') = Num (14 / 100)"
    using percentage_normalization [where t = "'' 14 %''" and x = 14]
    by (simp add: replace_def strip_defs float_14)
  have 3: "parse_pct (Some ''inf'') = PInf"
    using percentage_normalization [where t = "''inf''" and v = PInf]
    by (simp add: replace_def strip_defs float_inf)
  from 1 2 3 show ?thesis by blast
qed

lemma quitar_guiones_set: "quitar_guiones p s = Some s1 \<Longrightarrow> set s1 \<subseteq> set s"
proof (induction s arbitrary: p s1)
  case Nil
  then show ?case by (simp split: if_splits)
next
  case (Cons c cs)
  then show ?case by (fastforce split: if_splits)
qed

lemma float_strip_set: "set (float_strip s) \<subseteq> set s"
  by (auto simp: float_strip_def dest!: set_dropWhileD)

lemma py_strip_set: "set (py_strip s) \<subseteq> set s"
  by (auto simp: py_strip_def dest!: set_dropWhileD)

lemma pot10_pos: "0 < pot10 k"
  by (simp add: pot10_def)

lemma numero_nonneg: "numero t = Some x \<Longrightarrow> 0 \<le> x"
  by (auto simp: numero_def Let_def pot10_pos less_imp_le split: if_splits option.splits)

lemma float_body_cases:
  assumes "float_body neg body = Some v"
  shows "(\<exists>x. 0 \<le> x \<and> v = Num (if neg then - x else x))
         \<or> (map minuscula_ascii body \<in> {codigos ''inf'', codigos ''infinity'', codigos ''nan''}
             \<and> (v = (if neg then NInf else PInf) \<or> v = NaN))"
proof (cases "numero body")
  case (Some x)
  with assms numero_nonneg [OF Some] show ?thesis by (auto simp: float_body_def)
next
  case None
  with assms show ?thesis by (auto simp: float_body_def Let_def split: if_splits)
qed

text \<open>The outcomes of \<open>py_float\<close>, by the sign and the body of the stripped text.\<close>

lemma py_float_cases:
  assumes "py_float s = Some v"
  obtains "CHR ''-'' \<in> set s"
  | x where "v = Num x" "0 \<le> x"
  | body where "set body \<subseteq> set s"
      "map minuscula_ascii body \<in> {codigos ''inf'', codigos ''infinity'', codigos ''nan''}"
      "v = PInf \<or> v = NaN"
proof -
  from assms obtain s1 where s1: "quitar_guiones (CHR 0x00) s = Some s1"
    by (auto simp: py_float_def split: option.splits)
  have "float_strip s1 \<noteq> []"
    using assms s1 by (auto simp: py_float_def)
  then obtain c b where cb: "float_strip s1 = c # b"
    by (auto simp: neq_Nil_conv)
  have sub: "set (c # b) \<subseteq> set s"
    unfolding cb [symmetric] using float_strip_set [of s1] quitar_guiones_set [OF s1] by blast
  show ?thesis
  proof (cases "c = CHR ''-''")
    case True
    with sub have "CHR ''-'' \<in> set s" by auto
    then show ?thesis by (rule that(1))
  next
    case False
    let ?body = "if c = CHR ''+'' then b else c # b"
    have fb: "float_body False ?body = Some v"
    proof (cases "c = CHR ''+''")
      case True
      with assms False show ?thesis by (simp add: py_float_def s1 cb)
    next
      case nomas: False
      with assms False show ?thesis by (simp add: py_float_def s1 cb)
    qed
    have bs: "set ?body \<subseteq> set s" using sub by auto
    from float_body_cases [OF fb] show ?thesis
    proof
      assume "\<exists>x. 0 \<le> x \<and> v = Num (if False then - x else x)"
      then obtain x where "v = Num x" "0 \<le> x" by auto
      then show ?thesis by (rule that(2))
    next
      assume a: "map minuscula_ascii ?body \<in> {codigos ''inf'', codigos ''infinity'', codigos ''nan''}
             \<and> (v = (if False then NInf else PInf) \<or> v = NaN)"
      then have "v = PInf \<or> v = NaN" by simp
      with bs a [THEN conjunct1] show ?thesis by (rule that(3))
    qed
  qed
qed

lemma py_float_no_minus:
  assumes "CHR ''-'' \<notin> set s" and "py_float s = Some v"
  shows "\<not> negativo v"
  using assms(2)
proof (cases rule: py_float_cases)
  case 1
  with assms(1) show ?thesis by simp
next
  case (2 x)
  then show ?thesis by (simp add: negativo_def)
next
  case (3 body)
  then show ?thesis by (auto simp: negativo_def)
qed

lemma letras_no_num:
  assumes "map minuscula_ascii body \<in> {codigos ''inf'', codigos ''infinity'', codigos ''nan''}"
  shows "\<exists>c \<in> set body. \<not> (is_digit c \<or> c = CHR ''.'')"
proof -
  from assms obtain c cs where b: "body = c # cs" and "minuscula_ascii c = 105 \<or> minuscula_ascii c = 110"
    by (cases body) (auto simp: codigos_def)
  then have "\<not> (is_digit c \<or> c = CHR ''.'')"
    by (auto simp: minuscula_ascii_def is_digit_def split: if_splits)
  with b show ?thesis by auto
qed

lemma py_float_digits:
  assumes "\<forall>c \<in> set s. is_digit c \<or> c = CHR ''.''" and "py_float s = Some v"
  shows "\<exists>x. v = Num x \<and> 0 \<le> x"
  using assms(2)
proof (cases rule: py_float_cases)
  case 1
  with assms(1) show ?thesis by (auto simp: is_digit_def)
next
  case (2 x)
  then show ?thesis by simp
next
  case (3 body)
  from letras_no_num [OF 3(2)] obtain c where "c \<in> set body" "\<not> (is_digit c \<or> c = CHR ''.'')"
    by blast
  with 3(1) assms(1) show ?thesis by blast
qed

lemma replace_set: "set (replace c r s) \<subseteq> (set s - {c}) \<union> set r"
  by (auto simp: replace_def split: if_splits)

lemma texto_money_set:
  "set (texto_money s) \<subseteq> (set s - {CHR '','', CHR ''$''}) \<union> {CHR ''.''}"
proof -
  let ?t = "filter (\<lambda>c. \<not> (c = CHR ''$'' \<or> es_espacio c)) s"
  have t: "set ?t \<subseteq> set s - {CHR ''$''}" by auto
  have r1: "set (replace (CHR '','') [] ?t) \<subseteq> (set s - {CHR '','', CHR ''$''}) \<union> {CHR ''.''}"
    using replace_set [of "CHR '',''" "[]" ?t] t by auto
  have r2: "set (replace (CHR '','') ''.'' ?t) \<subseteq> (set s - {CHR '','', CHR ''$''}) \<union> {CHR ''.''}"
    using replace_set [of "CHR '',''" "''.''" ?t] t by auto
  have r3: "set (replace (CHR '','') ''.'' (replace (CHR ''.'') [] ?t))
              \<subseteq> (set s - {CHR '','', CHR ''$''}) \<union> {CHR ''.''}"
    using replace_set [of "CHR '',''" "''.''" "replace (CHR ''.'') [] ?t"]
      replace_set [of "CHR ''.''" "[]" ?t] t by auto
  have r4: "CHR '','' \<notin> set ?t \<Longrightarrow> set ?t \<subseteq> (set s - {CHR '','', CHR ''$''}) \<union> {CHR ''.''}"
    using t by auto
  show ?thesis
    unfolding texto_money_def Let_def using r1 r2 r3 r4 by (simp only: split: if_splits) blast
qed

lemma texto_pct_set:
  "set (texto_pct s) \<subseteq> (set s - {CHR '','', CHR ''%''}) \<union> {CHR ''.''}"
  unfolding texto_pct_def
  using replace_set [of "CHR '',''" "''.''" "filter (\<lambda>c. \<not> (c = CHR ''%'' \<or> es_espacio c)) s"]
  by auto

lemma texto_money_strip: "texto_money (py_strip t) = texto_money t"
  by (simp add: texto_money_def filter_py_strip)

lemma parse_money_Some:
  "parse_money (Some t) = (case py_float (texto_money t) of Some v \<Rightarrow> v | None \<Rightarrow> Num 0)"
proof (cases "py_strip t = []")
  case True
  then have "filter (\<lambda>c. c \<noteq> CHR ''$'' \<and> \<not> es_espacio c) t = []"
    by (rule filter_espacio_Nil)
  then have "texto_money t = []"
    by (simp add: texto_money_def)
  then show ?thesis by (simp add: parse_money_def True py_float_Nil)
next
  case False
  then show ?thesis by (simp add: parse_money_def texto_money_strip)
qed

lemma parse_money_no_minus:
  assumes "CHR ''-'' \<notin> set s"
  shows "\<not> negativo (parse_money (Some s))"
proof (cases "py_float (texto_money s)")
  case None
  then show ?thesis by (simp add: parse_money_Some negativo_def)
next
  case (Some v)
  have "CHR ''-'' \<notin> set (texto_money s)" using texto_money_set [of s] assms by auto
  from py_float_no_minus [OF this Some] show ?thesis by (simp add: parse_money_Some Some)
qed

lemma negativo_entre_100: "negativo (entre_100 v) = negativo v"
  by (cases v) (simp_all add: negativo_def entre_100_def)

lemma parse_pct_no_minus:
  assumes "CHR ''-'' \<notin> set s"
  shows "\<not> negativo (parse_pct (Some s))"
proof (cases "py_float (texto_pct s)")
  case None
  then show ?thesis by (simp add: parse_pct_Some negativo_def)
next
  case (Some v)
  have "CHR ''-'' \<notin> set (texto_pct s)" using texto_pct_set [of s] assms by auto
  from py_float_no_minus [OF this Some] show ?thesis
    by (simp add: parse_pct_Some Some negativo_entre_100)
qed

lemma pct_match_chars: "pct_match t = Some g \<Longrightarrow> \<forall>c \<in> set g. es_num_char c"
proof (induction t)
  case Nil
  then show ?case by simp
next
  case (Cons c cs)
  show ?case
  proof (cases "g = takeWhile es_num_char (c # cs)")
    case True
    then show ?thesis by (auto dest: set_takeWhileD)
  next
    case False
    with Cons.prems have "pct_match cs = Some g" by (auto simp: Let_def split: if_splits)
    then show ?thesis by (rule Cons.IH)
  qed
qed

lemma fixed_match_chars: "fixed_match t = Some g \<Longrightarrow> \<forall>c \<in> set g. es_num_char c"
proof (induction t)
  case Nil
  then show ?case by simp
next
  case (Cons c cs)
  show ?case
  proof (cases "g = takeWhile es_num_char (dropWhile es_espacio cs)")
    case True
    then show ?thesis by (auto dest: set_takeWhileD)
  next
    case False
    with Cons.prems have "fixed_match cs = Some g" by (auto simp: Let_def split: if_splits)
    then show ?thesis by (rule Cons.IH)
  qed
qed

lemma parse_pct_grupo:
  assumes "\<forall>c \<in> set g. es_num_char c"
  shows "\<exists>p. parse_pct (Some (g @ ''%'')) = Num p \<and> 0 \<le> p"
proof (cases "py_float (texto_pct (g @ ''%''))")
  case None
  then show ?thesis by (simp add: parse_pct_Some)
next
  case (Some v)
  have "\<forall>c \<in> set (texto_pct (g @ ''%'')). is_digit c \<or> c = CHR ''.''"
    using texto_pct_set [of "g @ ''%''"] assms by (auto simp: es_num_char_def)
  from py_float_digits [OF this Some] obtain x where "v = Num x" "0 \<le> x" by blast
  then have "parse_pct (Some (g @ ''%'')) = Num (if 1 < x then x / 100 else x)
             \<and> 0 \<le> (if 1 < x then x / 100 else x)"
    by (simp add: parse_pct_Some Some mayor_que_1_def entre_100_def)
  then show ?thesis by blast
qed

lemma parse_money_grupo:
  assumes "\<forall>c \<in> set g. es_num_char c"
  shows "\<exists>f. parse_money (Some (CHR ''$'' # g)) = Num f \<and> 0 \<le> f"
proof (cases "py_float (texto_money (CHR ''$'' # g))")
  case None
  then show ?thesis by (simp add: parse_money_Some)
next
  case (Some v)
  have "\<forall>c \<in> set (texto_money (CHR ''$'' # g)). is_digit c \<or> c = CHR ''.''"
    using texto_money_set [of "CHR ''$'' # g"] assms by (auto simp: es_num_char_def)
  from py_float_digits [OF this Some] obtain x where "v = Num x" "0 \<le> x" by blast
  then show ?thesis by (simp add: parse_money_Some Some)
qed

lemma parse_fee_combo_nonneg:
  "\<exists>p f. parse_fee_combo tx = (Num p, Num f) \<and> 0 \<le> p \<and> 0 \<le> f"
proof (cases tx)
  case None
  then show ?thesis by (simp add: parse_fee_combo_def)
next
  case (Some t)
  show ?thesis
  proof (cases "py_strip t = []")
    case True
    then show ?thesis by (simp add: parse_fee_combo_def Some)
  next
    case False
    have "\<exists>p. (case pct_match (py_strip t) of None \<Rightarrow> Num 0
                 | Some g \<Rightarrow> parse_pct (Some (g @ ''%''))) = Num p \<and> 0 \<le> p"
    proof (cases "pct_match (py_strip t)")
      case None
      then show ?thesis by simp
    next
      case (Some g)
      from parse_pct_grupo [OF pct_match_chars [OF Some]] show ?thesis by (simp add: Some)
    qed
    moreover have "\<exists>f. (case fixed_match (py_strip t) of None \<Rightarrow> Num 0
                 | Some g \<Rightarrow> parse_money (Some (''$'' @ g))) = Num f \<and> 0 \<le> f"
    proof (cases "fixed_match (py_strip t)")
      case None
      then show ?thesis by simp
    next
      case (Some g)
      from parse_money_grupo [OF fixed_match_chars [OF Some]] show ?thesis by (simp add: Some)
    qed
    ultimately show ?thesis
      using False by (auto simp: parse_fee_combo_def Some Let_def)
  qed
qed

text \<open>
  C4. Sign of the normalized values: for every text, both components of
  \<open>parse_fee_combo\<close> are numbers that are not negative; \<open>parse_money\<close> and \<open>parse_pct\<close>
  keep the sign of the text, so their result is not below zero for every text without a
  minus sign. No normalizer raises: a missing cell gives 0, and so does a text that
  \<open>float\<close> rejects after the cleaning.
\<close>

theorem normalizers_sign:
  "(\<exists>p f. parse_fee_combo tx = (Num p, Num f) \<and> 0 \<le> p \<and> 0 \<le> f)
   \<and> (CHR ''-'' \<notin> set s \<longrightarrow>
        \<not> negativo (parse_money (Some s)) \<and> \<not> negativo (parse_pct (Some s)))
   \<and> parse_money None = Num 0
   \<and> parse_pct None = Num 0
   \<and> (py_float (texto_money s) = None \<longrightarrow> parse_money (Some s) = Num 0)
   \<and> (py_float (texto_pct s) = None \<longrightarrow> parse_pct (Some s) = Num 0)"
proof (intro conjI impI)
  show "\<exists>p f. parse_fee_combo tx = (Num p, Num f) \<and> 0 \<le> p \<and> 0 \<le> f"
    by (rule parse_fee_combo_nonneg)
  show "parse_money None = Num 0" by (simp add: parse_money_def)
  show "parse_pct None = Num 0" by (simp add: parse_pct_def)
next
  assume "CHR ''-'' \<notin> set s"
  then show "\<not> negativo (parse_money (Some s))" by (rule parse_money_no_minus)
next
  assume "CHR ''-'' \<notin> set s"
  then show "\<not> negativo (parse_pct (Some s))" by (rule parse_pct_no_minus)
next
  assume "py_float (texto_money s) = None"
  then show "parse_money (Some s) = Num 0" by (simp add: parse_money_Some)
next
  assume "py_float (texto_pct s) = None"
  then show "parse_pct (Some s) = Num 0" by (simp add: parse_pct_Some)
qed

lemmas money_defs = parse_money_Some texto_money_def rfind_def replace_def strip_defs

lemmas pct_defs = parse_pct_Some texto_pct_def replace_def strip_defs mayor_que_1_def
  entre_100_def

theorem normalizers_sign_counterexample:
  "parse_money (Some ''-5'') = Num (- 5) \<and> parse_pct (Some ''-5'') = Num (- 5)
   \<and> negativo (parse_money (Some ''-5'')) \<and> negativo (parse_pct (Some ''-5''))"
proof -
  have a: "parse_money (Some ''-5'') = Num (- 5)"
    by (simp add: money_defs float_defs)
  have b: "parse_pct (Some ''-5'') = Num (- 5)"
    by (simp add: pct_defs float_defs)
  show ?thesis by (simp add: a b negativo_def)
qed

lemma float_abc_coma: "py_float (texto_money ''abc'') = None \<and> py_float (texto_pct ''abc'') = None"
  by (simp add: texto_money_def texto_pct_def replace_def strip_defs float_defs)

theorem normalizers_sign_witness:
  "\<not> negativo (parse_money (Some ''$1,095.00'')) \<and> \<not> negativo (parse_pct (Some ''$1,095.00''))
   \<and> parse_money (Some ''abc'') = Num 0 \<and> parse_pct (Some ''abc'') = Num 0"
proof -
  have m: "CHR ''-'' \<notin> set ''$1,095.00''" by simp
  from normalizers_sign [where s = "''$1,095.00''"] m
  have 1: "\<not> negativo (parse_money (Some ''$1,095.00''))
           \<and> \<not> negativo (parse_pct (Some ''$1,095.00''))"
    by blast
  from normalizers_sign [where s = "''abc''"] float_abc_coma
  have 2: "parse_money (Some ''abc'') = Num 0 \<and> parse_pct (Some ''abc'') = Num 0"
    by blast
  from 1 2 show ?thesis by blast
qed

lemma replace_Nil: "replace c [] t = filter (\<lambda>x. x \<noteq> c) t"
  by (induction t) (simp_all add: replace_def)

lemma replace_single: "replace c [d] t = map (\<lambda>x. if x = c then d else x) t"
  by (induction t) (simp_all add: replace_def)

lemma rfind_last:
  assumes "c \<notin> set b"
  shows "rfind c (a @ c # b) = int (length a)"
proof -
  have "takeWhile (\<lambda>x. x \<noteq> c) (rev b @ c # rev a)
          = rev b @ takeWhile (\<lambda>x. x \<noteq> c) (c # rev a)"
    by (rule takeWhile_append2) (use assms in auto)
  then have "takeWhile (\<lambda>x. x \<noteq> c) (rev b @ c # rev a) = rev b"
    by simp
  then show ?thesis by (simp add: rfind_def)
qed

lemma rfind_before:
  assumes "c \<in> set a" and "c \<notin> set b" and "c \<noteq> d"
  shows "rfind c (a @ d # b) < int (length a)"
proof -
  from split_list_last [OF assms(1)] obtain a1 a2 where a: "a = a1 @ c # a2" "c \<notin> set a2"
    by blast
  have "rfind c (a1 @ c # (a2 @ d # b)) = int (length a1)"
    using a(2) assms(2,3) by (intro rfind_last) auto
  then show ?thesis by (simp add: a(1))
qed

lemma split_neq_Nil: "split c t \<noteq> []"
  by (induction t) (auto split: list.splits)

lemma split_notin: "c \<notin> set t \<Longrightarrow> split c t = [t]"
  by (induction t) (auto split: list.splits)

lemma split_append: "c \<notin> set a \<Longrightarrow> split c (a @ c # b) = a # split c b"
proof (induction a)
  case Nil
  then show ?case using split_neq_Nil [of c b] by (auto split: list.splits)
next
  case (Cons x a)
  then show ?case by (auto split: list.splits)
qed

lemma split_length_ge2: "c \<in> set t \<Longrightarrow> 2 \<le> length (split c t)"
proof -
  assume "c \<in> set t"
  from split_list_first [OF this] obtain a b where t: "t = a @ c # b" "c \<notin> set a" by blast
  have "1 \<le> length (split c b)" using split_neq_Nil [of c b] by (cases "split c b") auto
  then show ?thesis by (simp add: t(1) split_append [OF t(2)])
qed

lemma texto_money_branches:
  assumes "filter (\<lambda>c. c \<noteq> CHR ''$'' \<and> \<not> es_espacio c) s = t"
  shows "texto_money s =
     (if CHR '','' \<in> set t \<and> CHR ''.'' \<in> set t then
        (if rfind (CHR '','') t < rfind (CHR ''.'') t
         then filter (\<lambda>x. x \<noteq> CHR '','') t
         else map (\<lambda>x. if x = CHR '','' then CHR ''.'' else x) (filter (\<lambda>x. x \<noteq> CHR ''.'') t))
      else if CHR '','' \<in> set t then
        (if length (split (CHR '','') t) = 2 \<and> length (split (CHR '','') t ! 1) \<le> 2
         then map (\<lambda>x. if x = CHR '','' then CHR ''.'' else x) t
         else filter (\<lambda>x. x \<noteq> CHR '','') t)
      else t)"
  unfolding texto_money_def Let_def replace_Nil replace_single
  using assms by simp

lemma filter_notin: "c \<notin> set b \<Longrightarrow> filter (\<lambda>x. x \<noteq> c) b = b"
  by (induction b) auto

lemma map_notin: "c \<notin> set b \<Longrightarrow> map (\<lambda>x. if x = c then d else x) b = b"
  by (induction b) auto

lemma punto_decimal:
  assumes "filter (\<lambda>c. c \<noteq> CHR ''$'' \<and> \<not> es_espacio c) s = a @ CHR ''.'' # b"
    and "CHR '','' \<in> set a" and "CHR '','' \<notin> set b" and "CHR ''.'' \<notin> set b"
  shows "texto_money s = filter (\<lambda>c. c \<noteq> CHR '','') a @ CHR ''.'' # b"
proof -
  have 1: "rfind (CHR ''.'') (a @ CHR ''.'' # b) = int (length a)"
    using assms(4) by (rule rfind_last)
  have 2: "rfind (CHR '','') (a @ CHR ''.'' # b) < int (length a)"
    using assms(2,3) by (intro rfind_before) auto
  show ?thesis
    unfolding texto_money_branches [OF assms(1)] using 1 2 assms(2,3)
    by (simp add: filter_notin)
qed

lemma coma_decimal:
  assumes "filter (\<lambda>c. c \<noteq> CHR ''$'' \<and> \<not> es_espacio c) s = a @ CHR '','' # b"
    and "CHR ''.'' \<in> set a" and "CHR '','' \<notin> set b" and "CHR ''.'' \<notin> set b"
  shows "texto_money s =
           map (\<lambda>c. if c = CHR '','' then CHR ''.'' else c) (filter (\<lambda>c. c \<noteq> CHR ''.'') a)
             @ CHR ''.'' # b"
proof -
  have 1: "rfind (CHR '','') (a @ CHR '','' # b) = int (length a)"
    using assms(3) by (rule rfind_last)
  have 2: "rfind (CHR ''.'') (a @ CHR '','' # b) < int (length a)"
    using assms(2,4) by (intro rfind_before) auto
  show ?thesis
    unfolding texto_money_branches [OF assms(1)] using 1 2 assms(2,3,4)
    by (simp add: filter_notin map_notin)
qed

lemma coma_sola_decimal:
  assumes "filter (\<lambda>c. c \<noteq> CHR ''$'' \<and> \<not> es_espacio c) s = a @ CHR '','' # b"
    and "CHR ''.'' \<notin> set a \<union> set b" and "CHR '','' \<notin> set a \<union> set b" and "length b \<le> 2"
  shows "texto_money s = a @ CHR ''.'' # b"
proof -
  have sp: "split (CHR '','') (a @ CHR '','' # b) = [a, b]"
    using assms(3) by (simp add: split_append split_notin)
  show ?thesis
    unfolding texto_money_branches [OF assms(1)] using sp assms(2,3,4)
    by (simp add: map_notin)
qed

lemma coma_miles:
  assumes "filter (\<lambda>c. c \<noteq> CHR ''$'' \<and> \<not> es_espacio c) s = a @ CHR '','' # b"
    and "CHR ''.'' \<notin> set a \<union> set b" and "CHR '','' \<notin> set b"
    and "CHR '','' \<in> set a \<or> 2 < length b"
  shows "texto_money s = filter (\<lambda>c. c \<noteq> CHR '','') a @ b"
proof -
  have "\<not> (length (split (CHR '','') (a @ CHR '','' # b)) = 2
            \<and> length (split (CHR '','') (a @ CHR '','' # b) ! 1) \<le> 2)"
  proof (cases "CHR '','' \<in> set a")
    case True
    from split_list_first [OF True] obtain a1 a2 where a: "a = a1 @ CHR '','' # a2"
      "CHR '','' \<notin> set a1" by blast
    have "2 \<le> length (split (CHR '','') (a2 @ CHR '','' # b))"
      by (rule split_length_ge2) simp
    then have "3 \<le> length (split (CHR '','') (a @ CHR '','' # b))"
      by (simp add: a(1) split_append [OF a(2)])
    then show ?thesis by simp
  next
    case False
    then have "split (CHR '','') (a @ CHR '','' # b) = [a, b]"
      using assms(3) by (simp add: split_append split_notin)
    with False assms(4) show ?thesis by simp
  qed
  then show ?thesis
    unfolding texto_money_branches [OF assms(1)] using assms(2,3)
    by (auto simp: filter_notin)
qed

lemma sin_coma:
  assumes "CHR '','' \<notin> set s"
  shows "texto_money s = filter (\<lambda>c. c \<noteq> CHR ''$'' \<and> \<not> es_espacio c) s"
  unfolding texto_money_branches [OF refl] using assms by simp

lemma texto_money_idem:
  "texto_money (filter (\<lambda>c. c \<noteq> CHR ''$'' \<and> \<not> es_espacio c) s) = texto_money s"
  by (simp add: texto_money_def)

text \<open>
  C5. Separators of \<open>parse_money\<close>: a missing cell gives 0; otherwise every
  \<open>$\<close> and blank is dropped, the separators of what is left are settled, and the result
  is what \<open>float\<close> reads from it, or 0 when \<open>float\<close> rejects it (the empty text included).
  With both a comma and a point, the rightmost of the two is the decimal separator: below,
  \<open>b\<close> is what follows it. If it is a point, every comma is dropped; if it is a comma, every
  point is dropped (and a comma further left becomes a point as well). With commas only,
  the comma becomes the decimal point exactly when it is the only one and at most two
  characters follow it (of any kind, possibly none); otherwise every comma is dropped.
  Without a comma nothing else changes. \<open>$1,095.00\<close> gives 1095 and \<open>1.095,50\<close> gives 1095.5.
\<close>

theorem money_separators:
  "parse_money None = Num 0
   \<and> parse_money (Some s) = (case py_float (texto_money s) of Some v \<Rightarrow> v | None \<Rightarrow> Num 0)
   \<and> texto_money (filter (\<lambda>c. c \<noteq> CHR ''$'' \<and> \<not> es_espacio c) s) = texto_money s
   \<and> (filter (\<lambda>c. c \<noteq> CHR ''$'' \<and> \<not> es_espacio c) s = a @ CHR ''.'' # b
       \<and> CHR '','' \<in> set a \<and> CHR '','' \<notin> set b \<and> CHR ''.'' \<notin> set b \<longrightarrow>
         texto_money s = filter (\<lambda>c. c \<noteq> CHR '','') a @ CHR ''.'' # b)
   \<and> (filter (\<lambda>c. c \<noteq> CHR ''$'' \<and> \<not> es_espacio c) s = a @ CHR '','' # b
       \<and> CHR ''.'' \<in> set a \<and> CHR '','' \<notin> set b \<and> CHR ''.'' \<notin> set b \<longrightarrow>
         texto_money s =
           map (\<lambda>c. if c = CHR '','' then CHR ''.'' else c) (filter (\<lambda>c. c \<noteq> CHR ''.'') a)
             @ CHR ''.'' # b)
   \<and> (filter (\<lambda>c. c \<noteq> CHR ''$'' \<and> \<not> es_espacio c) s = a @ CHR '','' # b
       \<and> CHR ''.'' \<notin> set a \<union> set b \<and> CHR '','' \<notin> set a \<union> set b \<and> length b \<le> 2 \<longrightarrow>
         texto_money s = a @ CHR ''.'' # b)
   \<and> (filter (\<lambda>c. c \<noteq> CHR ''$'' \<and> \<not> es_espacio c) s = a @ CHR '','' # b
       \<and> CHR ''.'' \<notin> set a \<union> set b \<and> CHR '','' \<notin> set b
       \<and> (CHR '','' \<in> set a \<or> 2 < length b) \<longrightarrow>
         texto_money s = filter (\<lambda>c. c \<noteq> CHR '','') a @ b)
   \<and> (CHR '','' \<notin> set s \<longrightarrow>
         texto_money s = filter (\<lambda>c. c \<noteq> CHR ''$'' \<and> \<not> es_espacio c) s)
   \<and> parse_money (Some ''$1,095.00'') = Num 1095
   \<and> parse_money (Some ''1.095,50'') = Num (10955 / 10)
   \<and> parse_money (Some []) = Num 0"
proof (intro conjI impI)
  show "parse_money None = Num 0" by (simp add: parse_money_def)
  show "parse_money (Some s) = (case py_float (texto_money s) of Some v \<Rightarrow> v | None \<Rightarrow> Num 0)"
    by (rule parse_money_Some)
  show "texto_money (filter (\<lambda>c. c \<noteq> CHR ''$'' \<and> \<not> es_espacio c) s) = texto_money s"
    by (rule texto_money_idem)
  show "parse_money (Some ''$1,095.00'') = Num 1095"
    by (simp add: money_defs float_defs)
  show "parse_money (Some ''1.095,50'') = Num (10955 / 10)"
    by (simp add: money_defs float_defs)
  show "parse_money (Some []) = Num 0"
    by (simp add: parse_money_def py_strip_def)
next
  assume "filter (\<lambda>c. c \<noteq> CHR ''$'' \<and> \<not> es_espacio c) s = a @ CHR ''.'' # b
       \<and> CHR '','' \<in> set a \<and> CHR '','' \<notin> set b \<and> CHR ''.'' \<notin> set b"
  then show "texto_money s = filter (\<lambda>c. c \<noteq> CHR '','') a @ CHR ''.'' # b"
    by (intro punto_decimal) simp_all
next
  assume "filter (\<lambda>c. c \<noteq> CHR ''$'' \<and> \<not> es_espacio c) s = a @ CHR '','' # b
       \<and> CHR ''.'' \<in> set a \<and> CHR '','' \<notin> set b \<and> CHR ''.'' \<notin> set b"
  then show "texto_money s =
           map (\<lambda>c. if c = CHR '','' then CHR ''.'' else c) (filter (\<lambda>c. c \<noteq> CHR ''.'') a)
             @ CHR ''.'' # b"
    by (intro coma_decimal) simp_all
next
  assume "filter (\<lambda>c. c \<noteq> CHR ''$'' \<and> \<not> es_espacio c) s = a @ CHR '','' # b
       \<and> CHR ''.'' \<notin> set a \<union> set b \<and> CHR '','' \<notin> set a \<union> set b \<and> length b \<le> 2"
  then show "texto_money s = a @ CHR ''.'' # b"
    by (intro coma_sola_decimal) simp_all
next
  assume "filter (\<lambda>c. c \<noteq> CHR ''$'' \<and> \<not> es_espacio c) s = a @ CHR '','' # b
       \<and> CHR ''.'' \<notin> set a \<union> set b \<and> CHR '','' \<notin> set b
       \<and> (CHR '','' \<in> set a \<or> 2 < length b)"
  then show "texto_money s = filter (\<lambda>c. c \<noteq> CHR '','') a @ b"
    by (intro coma_miles) simp_all
next
  assume "CHR '','' \<notin> set s"
  then show "texto_money s = filter (\<lambda>c. c \<noteq> CHR ''$'' \<and> \<not> es_espacio c) s"
    by (rule sin_coma)
qed

theorem money_separators_counterexample:
  "texto_money ''5,'' = ''5.''
   \<and> parse_money (Some ''1e5,'') = Num 0
   \<and> py_float (filter (\<lambda>c. c \<noteq> CHR '','') ''1e5,'') = Some (Num 100000)"
proof -
  have 1: "texto_money ''5,'' = ''5.''"
    by (simp add: texto_money_def replace_def strip_defs)
  have 2: "parse_money (Some ''1e5,'') = Num 0"
    by (simp add: money_defs float_defs)
  have 3: "py_float (filter (\<lambda>c. c \<noteq> CHR '','') ''1e5,'') = Some (Num 100000)"
    by (simp add: float_defs)
  from 1 2 3 show ?thesis by blast
qed

theorem money_separators_witness:
  "texto_money ''$ 1,095.00'' = ''1095.00''
   \<and> texto_money ''1.095,50'' = ''1095.50''
   \<and> texto_money ''12,5'' = ''12.5''
   \<and> texto_money ''1,095'' = ''1095''
   \<and> texto_money ''1,234,56'' = ''123456''
   \<and> texto_money ''$ 1095'' = ''1095''"
proof -
  have 1: "texto_money ''$ 1,095.00'' = ''1095.00''"
    using money_separators [where s = "''$ 1,095.00''" and a = "''1,095''" and b = "''00''"]
    by (simp add: strip_defs)
  have 2: "texto_money ''1.095,50'' = ''1095.50''"
    using money_separators [where s = "''1.095,50''" and a = "''1.095''" and b = "''50''"]
    by (simp add: strip_defs)
  have 3: "texto_money ''12,5'' = ''12.5''"
    using money_separators [where s = "''12,5''" and a = "''12''" and b = "''5''"]
    by (simp add: strip_defs)
  have 4: "texto_money ''1,095'' = ''1095''"
    using money_separators [where s = "''1,095''" and a = "''1''" and b = "''095''"]
    by (simp add: strip_defs)
  have 5: "texto_money ''1,234,56'' = ''123456''"
    using money_separators [where s = "''1,234,56''" and a = "''1,234''" and b = "''56''"]
    by (simp add: strip_defs)
  have 6: "texto_money ''$ 1095'' = ''1095''"
    using money_separators [where s = "''$ 1095''"]
    by (simp add: strip_defs)
  from 1 2 3 4 5 6 show ?thesis by blast
qed

lemma Retenciones_ML_calcular_fila:
  "Retenciones_ML (calcular_fila df i t v r)
     = round2 (fst (snd (snd (snd (calculos df i t v r)))))"
  by (simp add: calcular_fila_def Let_def split: prod.splits)

lemma solver_sin_retenciones:
  "fst (snd (snd (snd (calcular_precio_publicacion_ml n c f (Some 0) k)))) = 0"
  by (simp add: calcular_precio_publicacion_ml_def Let_def float_or0_def)

lemma sin_columna_retenciones:
  assumes "\<not> col_retenciones_pct df"
  shows "retenciones_pct_serie df r = 0" and "Retenciones_ML (calcular_fila df i t v r) = 0"
proof -
  show z: "retenciones_pct_serie df r = 0" using assms by (simp add: retenciones_pct_serie_def)
  show "Retenciones_ML (calcular_fila df i t v r) = 0"
    by (simp add: Retenciones_ML_calcular_fila calculos_def z solver_sin_retenciones round2_0)
qed

lemma col_leer_ml:
  "leer_ml ml_file = Some df_ml \<Longrightarrow>
   col_retenciones_pct_ml df_ml = col_retenciones_pct_ml_excel ml_file"
  by (auto simp: leer_ml_def)

lemma col_leer_odoo:
  "leer_odoo odoo_file = Some df_odoo \<Longrightarrow>
   col_retenciones_pct_odoo df_odoo = col_retenciones_pct_odoo_excel odoo_file"
  by (auto simp: leer_odoo_def)

lemma col_unir_y_validar:
  "col_retenciones_pct (unir_y_validar df_ml df_odoo)
     = (col_retenciones_pct_ml df_ml \<noteq> col_retenciones_pct_odoo df_odoo)"
  by (simp add: unir_y_validar_def)

text \<open>
  C10. Withholdings in the assembled pipeline: the pricing computation reads
  the withholding percentage from the column \<open>retenciones_pct\<close> only, and for a frame
  without it the percentage handed to the solver and the withholding charge of the result
  are 0 in every row. No loader creates that column and the linker does not either: each
  passes on the column of the sheets, and the joined frame has it exactly when one of the
  two sheets brings it. So for sheets that do not bring the column (or that both do), the
  pipeline hands 0 to the solver and reports 0 in every row.
\<close>

theorem withholding_zero_pipeline:
  "(\<not> col_retenciones_pct df \<longrightarrow>
      retenciones_pct_serie df r = 0 \<and> Retenciones_ML (calcular_fila df i t v r) = 0)
   \<and> (leer_ml ml_file = Some df_ml \<longrightarrow>
        col_retenciones_pct_ml df_ml = col_retenciones_pct_ml_excel ml_file)
   \<and> (leer_odoo odoo_file = Some df_odoo \<longrightarrow>
        col_retenciones_pct_odoo df_odoo = col_retenciones_pct_odoo_excel odoo_file)
   \<and> col_retenciones_pct (unir_y_validar df_ml df_odoo)
       = (col_retenciones_pct_ml df_ml \<noteq> col_retenciones_pct_odoo df_odoo)
   \<and> (leer_ml ml_file = Some df_ml \<and> leer_odoo odoo_file = Some df_odoo
       \<and> col_retenciones_pct_ml_excel ml_file = col_retenciones_pct_odoo_excel odoo_file \<longrightarrow>
         pipeline ml_file odoo_file b i t v
           = Some (calcular (unir_y_validar df_ml df_odoo) b i t v)
         \<and> (\<forall>x \<in> set (filas (unir_y_validar df_ml df_odoo)).
               retenciones_pct_serie (unir_y_validar df_ml df_odoo) x = 0)
         \<and> (\<forall>y \<in> set (calcular (unir_y_validar df_ml df_odoo) b i t v). Retenciones_ML y = 0))"
proof (intro conjI impI)
  assume "\<not> col_retenciones_pct df"
  then show "retenciones_pct_serie df r = 0" "Retenciones_ML (calcular_fila df i t v r) = 0"
    by (rule sin_columna_retenciones)+
next
  assume "leer_ml ml_file = Some df_ml"
  then show "col_retenciones_pct_ml df_ml = col_retenciones_pct_ml_excel ml_file"
    by (rule col_leer_ml)
next
  assume "leer_odoo odoo_file = Some df_odoo"
  then show "col_retenciones_pct_odoo df_odoo = col_retenciones_pct_odoo_excel odoo_file"
    by (rule col_leer_odoo)
next
  show "col_retenciones_pct (unir_y_validar df_ml df_odoo)
       = (col_retenciones_pct_ml df_ml \<noteq> col_retenciones_pct_odoo df_odoo)"
    by (rule col_unir_y_validar)
next
  assume h: "leer_ml ml_file = Some df_ml \<and> leer_odoo odoo_file = Some df_odoo
       \<and> col_retenciones_pct_ml_excel ml_file = col_retenciones_pct_odoo_excel odoo_file"
  from h have a: "col_retenciones_pct_ml df_ml = col_retenciones_pct_ml_excel ml_file"
    by (intro col_leer_ml) simp
  from h have c: "col_retenciones_pct_odoo df_odoo = col_retenciones_pct_odoo_excel odoo_file"
    by (intro col_leer_odoo) simp
  from h have n: "\<not> col_retenciones_pct (unir_y_validar df_ml df_odoo)"
    by (simp add: col_unir_y_validar a c)
  show "pipeline ml_file odoo_file b i t v
           = Some (calcular (unir_y_validar df_ml df_odoo) b i t v)"
    using h by (simp add: pipeline_def)
  show "\<forall>x \<in> set (filas (unir_y_validar df_ml df_odoo)).
               retenciones_pct_serie (unir_y_validar df_ml df_odoo) x = 0"
    using sin_columna_retenciones(1) [OF n] by blast
  show "\<forall>y \<in> set (calcular (unir_y_validar df_ml df_odoo) b i t v). Retenciones_ML y = 0"
    using sin_columna_retenciones(2) [OF n] by (auto simp: calcular_def)
qed

lemmas fee_defs = parse_fee_combo_def es_num_char_def

lemma fee_ejemplo:
  "parse_fee_combo (Some ''14.50% + $1095.00'') = (Num (145 / 1000), Num 1095)"
  by (simp add: fee_defs pct_defs money_defs float_defs)

lemma financing_ejemplo: "parse_pct (Some ''4.00%'') = Num (4 / 100)"
  by (simp add: pct_defs float_defs)

lemma tax_ejemplo: "extract_tax_percentage (Some ''IVA Ventas 21%'') = Some (Num (21 / 100))"
  by (simp add: extract_tax_percentage_def sigue_pct_def strip_defs float_defs entre_100_def)

lemma leer_ml_ejemplo:
  "leer_ml (ml_excel_ejemplo c) =
     Some \<lparr> filas_ml =
              [\<lparr> SKU_ml = ''LED7012795'', SHIPPING_METHOD_ml = Some por_mi_cuenta,
                 fee_pct_ml = Some (145 / 1000), fee_fixed_ml = Some 1095,
                 financing_pct_ml = Some (4 / 100),
                 retenciones_pct_ml = (if c then Some (1 / 100) else None) \<rparr>],
            col_SHIPPING_METHOD_ml = True, col_retenciones_pct_ml = c \<rparr>"
  by (simp add: leer_ml_def clean_ml_data_def valid_mask_def startswith_def strip_defs
      ml_excel_ejemplo_def leer_ml_fila_def fee_ejemplo financing_ejemplo celda_def
      fillna_str_def)

lemma leer_odoo_ejemplo:
  "leer_odoo odoo_excel_ejemplo =
     Some \<lparr> filas_odoo =
              [\<lparr> Codigo_Neored_odoo = ''LED7012795'', Precio_Tarifa_odoo = Some 18500,
                 Cantidad_a_mano_odoo = Some 250, tax_pct_odoo = Some (21 / 100),
                 retenciones_pct_odoo = None \<rparr>],
            col_retenciones_pct_odoo = False \<rparr>"
  by (simp add: leer_odoo_def odoo_excel_ejemplo_def leer_odoo_fila_def tax_ejemplo celda_def
      fillna_str_def fillna0_def)

lemma unir_ejemplo:
  "unir_y_validar
     \<lparr> filas_ml =
         [\<lparr> SKU_ml = ''LED7012795'', SHIPPING_METHOD_ml = Some por_mi_cuenta,
            fee_pct_ml = Some (145 / 1000), fee_fixed_ml = Some 1095,
            financing_pct_ml = Some (4 / 100),
            retenciones_pct_ml = (if c then Some (1 / 100) else None) \<rparr>],
       col_SHIPPING_METHOD_ml = True, col_retenciones_pct_ml = c \<rparr>
     \<lparr> filas_odoo =
         [\<lparr> Codigo_Neored_odoo = ''LED7012795'', Precio_Tarifa_odoo = Some 18500,
            Cantidad_a_mano_odoo = Some 250, tax_pct_odoo = Some (21 / 100),
            retenciones_pct_odoo = None \<rparr>],
       col_retenciones_pct_odoo = False \<rparr>
   = \<lparr> filas =
         [\<lparr> SKU = ''LED7012795'', SHIPPING_METHOD = Some por_mi_cuenta,
            fee_pct = Some (145 / 1000), fee_fixed = Some 1095, financing_pct = Some (4 / 100),
            retenciones_pct = (if c then Some (1 / 100) else None),
            Codigo_Neored = Some ''LED7012795'', Precio_Tarifa = Some 18500,
            Cantidad_a_mano = Some 250, tax_pct = Some (21 / 100), Notas_Flags = Some [] \<rparr>],
       col_SHIPPING_METHOD = True, col_retenciones_pct = c, col_Notas_Flags = True \<rparr>"
  by (simp add: unir_y_validar_def merge_left_def fila_unida_def notas_flags_def
      strip_chars_def)

lemma floor_ejemplo: "\<lfloor>3919000 / 161 :: rat\<rfloor> = 24341"
  by (rule floor_unique) simp_all

lemma round2_ejemplo: "round2 (39190 / 161) = 12171 / 50"
  by (simp add: round2_def rint_def Let_def floor_ejemplo)

theorem withholding_zero_pipeline_counterexample:
  "map_option (map Retenciones_ML)
     (pipeline (ml_excel_ejemplo True) odoo_excel_ejemplo ''tarifa'' False (Some ''Ninguno'')
        (Numero 0))
   = Some [12171 / 50]"
proof -
  have s: "fst (snd (snd (snd (calcular_precio_publicacion_ml (Some 18500) (Some (29 / 200))
             (Some (1 / 25)) (Some (1 / 100)) (Some 1095))))) = 39190 / 161"
    by (simp add: calcular_precio_publicacion_ml_def float_or0_def Let_def)
  show ?thesis
    by (simp add: pipeline_def leer_ml_ejemplo leer_odoo_ejemplo unir_ejemplo [of True, simplified]
        calcular_def Retenciones_ML_calcular_fila calculos_def retenciones_pct_serie_def
        fillna0_def tarifa_objetivo_def tarifa_neta_base_def envio_def recargo_envio_def
        truthy_def Let_def s round2_ejemplo)
qed

theorem withholding_zero_pipeline_witness:
  "map_option (map Retenciones_ML)
     (pipeline (ml_excel_ejemplo False) odoo_excel_ejemplo ''tarifa'' False (Some ''Ninguno'')
        (Numero 0))
   = Some [0]"
proof -
  have c: "col_retenciones_pct_ml_excel (ml_excel_ejemplo False)
             = col_retenciones_pct_odoo_excel odoo_excel_ejemplo"
    by (simp add: ml_excel_ejemplo_def odoo_excel_ejemplo_def)
  from withholding_zero_pipeline [where ml_file = "ml_excel_ejemplo False"
      and odoo_file = odoo_excel_ejemplo and b = "''tarifa''" and i = False
      and t = "Some ''Ninguno''" and v = "Numero 0"] leer_ml_ejemplo [of False]
    leer_odoo_ejemplo c
  show ?thesis
    by (simp add: unir_ejemplo [of False, simplified] calcular_def)
qed

end
